theory Spec2Isabelle
  imports Complex_Main
begin

section \<open>Numbers and the data model\<close>

text \<open>
  The chart is written in TypeScript; its numbers are IEEE doubles. They are modelled
  as reals: no rounding, and no infinities or NaN. The one place of the chart where a
  quotient can leave the finite numbers (\<open>spikeLineHeight\<close>, a division by the
  number of series) returns an option, \<open>None\<close> standing for the non-finite value
  JavaScript yields without raising.
\<close>

text \<open>\<^verbatim>\<open>margins.ts\<close>: the margins around the plot.\<close>

record Margin =
  top_margin :: real
  right :: real
  bottom :: real
  left :: real

record Dimensions =
  dimWidth :: real
  dimHeight :: real

definition adjustedDimensions :: "real \<Rightarrow> real \<Rightarrow> Margin \<Rightarrow> Dimensions" where
  "adjustedDimensions w h margins =
     \<lparr>dimWidth = w - left margins - right margins,
      dimHeight = h - top_margin margins - bottom margins\<rparr>"

text \<open>
  \<^verbatim>\<open>datumSeries\<close>: one observation, and a named series of them. The field
  \<^verbatim>\<open>value\<close> of the source is written \<open>val\<close>.
\<close>

record Datum =
  time :: real
  val :: real

record Series =
  name :: string
  data :: "Datum list"

subsection \<open>Style configuration\<close>

text \<open>
  The style objects after the defaults have been merged in (lines 158 to 165 of
  \<^verbatim>\<open>RasterChart.tsx\<close>). Of the tooltip's style only the fields that decide
  which primitives exist and where they stand are kept; fonts and colours of the
  tooltip are left out.
\<close>

record SpikesStyle =
  spikeMargin :: real
  color :: string
  lineWidth :: real
  highlightColor :: string
  highlightWidth :: real

record TooltipStyle =
  visible :: bool
  paddingLeft :: real
  paddingRight :: real
  paddingTop :: real
  paddingBottom :: real

record LineMagnifierStyle =
  magnifierVisible :: bool
  magnifierWidth :: real

record TrackerStyle =
  trackerVisible :: bool

record Props =
  width :: real
  height :: real
  margin :: Margin
  spikesStyle :: SpikesStyle
  plotGridLinesVisible :: bool
  tooltip :: TooltipStyle
  magnifier :: LineMagnifierStyle
  tracker :: TrackerStyle
  seriesList :: "Series list"

definition plotDimensions :: "Props \<Rightarrow> Dimensions" where
  "plotDimensions p = adjustedDimensions (width p) (height p) (margin p)"

section \<open>The scales of the drawing library\<close>

text \<open>
  The chart maps times to pixels with \<^verbatim>\<open>d3.scaleLinear\<close> and series names to
  bands with \<^verbatim>\<open>d3.scaleBand\<close>. d3 is an external library; the two scales are
  written here as d3 computes them (a two-point continuous scale without clamping, a
  band scale without padding or rounding), over the reals.
\<close>

record ScaleLinear =
  d0 :: real
  d1 :: real
  r0 :: real
  r1 :: real

text \<open>
  d3 normalises against an interval of width zero with the constant one half (earlier
  releases of the library with the lower end); nothing below rests on that case.
\<close>

definition normalize :: "real \<Rightarrow> real \<Rightarrow> real \<Rightarrow> real" where
  "normalize a b x = (if b - a = 0 then 1 / 2 else (x - a) / (b - a))"

definition interpolateNumber :: "real \<Rightarrow> real \<Rightarrow> real \<Rightarrow> real" where
  "interpolateNumber a b t = a * (1 - t) + b * t"

definition applyScale :: "ScaleLinear \<Rightarrow> real \<Rightarrow> real" where
  "applyScale sc t = interpolateNumber (r0 sc) (r1 sc) (normalize (d0 sc) (d1 sc) t)"

definition invert :: "ScaleLinear \<Rightarrow> real \<Rightarrow> real" where
  "invert sc x = interpolateNumber (d0 sc) (d1 sc) (normalize (r0 sc) (r1 sc) x)"

text \<open>
  A band scale: the domain keeps the first occurrence of each name, in order; the upper
  end of the range is an option, \<open>None\<close> for a non-finite number.
\<close>

fun firstOccurrences :: "string list \<Rightarrow> string list" where
  "firstOccurrences [] = []"
| "firstOccurrences (x # xs) = x # firstOccurrences (removeAll x xs)"

fun indexOf :: "string \<Rightarrow> string list \<Rightarrow> nat option" where
  "indexOf x [] = None"
| "indexOf x (y # ys) = (if x = y then Some 0 else map_option Suc (indexOf x ys))"

record ScaleBand =
  bandDomain :: "string list"
  rangeLo :: real
  rangeHi :: "real option"

text \<open>
  What a lookup in a band scale yields in JavaScript: \<^verbatim>\<open>undefined\<close> for a
  name outside the domain, NaN when the range is not finite, a number otherwise.
\<close>

datatype lookup = Undefined | NaN | Num real

definition bandIndex :: "ScaleBand \<Rightarrow> string \<Rightarrow> nat option" where
  "bandIndex sc nm = indexOf nm (bandDomain sc)"

text \<open>
  d3's \<^verbatim>\<open>rescale\<close> of a band scale with no padding and alignment one half: the
  step is the extent over \<open>max 1 n\<close>, the bands start where the leftover is split in
  two, and a range given downwards reverses the bands.
\<close>

definition bandValue :: "nat \<Rightarrow> real \<Rightarrow> real \<Rightarrow> nat \<Rightarrow> real" where
  "bandValue n lo hi i =
     (let reversed = hi < lo;
          first = (if reversed then hi else lo);
          stop = (if reversed then lo else hi);
          step = (stop - first) / max 1 (real n);
          first' = first + (stop - first - step * real n) * (1 / 2)
      in first' + step * real (if reversed then n - 1 - i else i))"

definition bandPos :: "ScaleBand \<Rightarrow> string \<Rightarrow> lookup" where
  "bandPos sc nm =
     (case bandIndex sc nm of
        None \<Rightarrow> Undefined
      | Some i \<Rightarrow>
          (case rangeHi sc of
             None \<Rightarrow> NaN
           | Some hi \<Rightarrow> Num (bandValue (length (bandDomain sc)) (rangeLo sc) hi i)))"

text \<open>The JavaScript idiom \<^verbatim>\<open>scale(name) || 0\<close>.\<close>

fun orZero :: "lookup \<Rightarrow> real" where
  "orZero Undefined = 0"
| "orZero NaN = 0"
| "orZero (Num r) = r"

section \<open>Geometry of the plot\<close>

text \<open>
  \<^verbatim>\<open>spikeLineHeight\<close> (lines 336 to 338): the plot height over the number of
  series. With no series the quotient is not a finite number.
\<close>

definition spikeLineHeight :: "Props \<Rightarrow> real option" where
  "spikeLineHeight p =
     (if length (seriesList p) = 0 then None
      else Some (dimHeight (plotDimensions p) / real (length (seriesList p))))"

text \<open>\<^verbatim>\<open>mouseInPlotArea\<close> (lines 456 to 459).\<close>

definition mouseInPlotArea :: "Props \<Rightarrow> real \<Rightarrow> real \<Rightarrow> bool" where
  "mouseInPlotArea p x y =
     (x > left (margin p) \<and> x < width p - right (margin p) \<and>
      y > top_margin (margin p) \<and> y < height p - bottom (margin p))"

text \<open>The scales \<^verbatim>\<open>updatePlot\<close> builds (lines 595 to 604).\<close>

definition yScaleOf :: "Props \<Rightarrow> ScaleBand" where
  "yScaleOf p =
     \<lparr>bandDomain = firstOccurrences (map name (seriesList p)),
      rangeLo = 0,
      rangeHi = map_option
        (\<lambda>lineHeight. lineHeight * real (length (seriesList p)) - top_margin (margin p))
        (spikeLineHeight p)\<rparr>"

section \<open>The time range\<close>

text \<open>
  Modelled from the spec: \<^verbatim>\<open>timeRange.ts\<close> is not among the sources. The spec
  gives a time range two bounds, \<open>start\<close> and \<open>end\<close> (written \<open>endT\<close> here), and
  \<open>translate\<close> as a shift of both bounds by the same delta.
\<close>

record TimeRange =
  start :: real
  endT :: real

definition translate :: "real \<Rightarrow> TimeRange \<Rightarrow> TimeRange" where
  "translate deltaTime r = \<lparr>start = start r + deltaTime, endT = endT r + deltaTime\<rparr>"

text \<open>
  Modelled from the spec: \<open>scale\<close> of the absent \<^verbatim>\<open>timeRange.ts\<close>. It rescales
  the window about a pivot and keeps the pivot's share of the left and right span. The
  spec's sentences on the amount admit two readings, and both are kept. One sentence has
  the spans before the call scaled by one over the factor (\<open>PerCall\<close>). Another calls
  the factor the gesture's cumulative scale, not a delta (\<open>Cumulative\<close>): the range
  remembers the factor it was last scaled with, 1 when it is created, and the spans
  change by that factor over the new one. The remembered factor is an argument here; the
  chart keeps the same number in \<open>zoomFactorRef\<close> (line 201). The spec requires a
  positive factor, and says of the factor 0 that it collapses the window to zero width:
  the spans are then multiplied by 0.
\<close>

datatype Reading = PerCall | Cumulative

definition spanRatio :: "Reading \<Rightarrow> real \<Rightarrow> real \<Rightarrow> real" where
  "spanRatio reading previous factor =
     (if factor = 0 then 0
      else (case reading of PerCall \<Rightarrow> 1 | Cumulative \<Rightarrow> previous) / factor)"

definition scale :: "Reading \<Rightarrow> real \<Rightarrow> real \<Rightarrow> real \<Rightarrow> TimeRange \<Rightarrow> TimeRange" where
  "scale reading previous factor pivot r =
     \<lparr>start = pivot - (pivot - start r) * spanRatio reading previous factor,
      endT = pivot + (endT r - pivot) * spanRatio reading previous factor\<rparr>"

text \<open>
  The zoom gesture is set up with \<^verbatim>\<open>scaleExtent([0, 10])\<close> (line 582): the
  factors it delivers lie between the two bounds, both included.
\<close>

definition scaleExtent :: "real \<times> real" where
  "scaleExtent = (0, 10)"

definition deliverable :: "real \<Rightarrow> bool" where
  "deliverable k = (fst scaleExtent \<le> k \<and> k \<le> snd scaleExtent)"

text \<open>
  A sequence of operations on a range; the state is the range and the factor it was
  last scaled with.
\<close>

datatype TimeRangeOp = Scale real real | Translate real

fun applyOp :: "Reading \<Rightarrow> TimeRange \<times> real \<Rightarrow> TimeRangeOp \<Rightarrow> TimeRange \<times> real" where
  "applyOp reading (r, previous) (Scale k pivot) = (scale reading previous k pivot r, k)"
| "applyOp reading (r, previous) (Translate dt) = (translate dt r, previous)"

definition applyOps :: "Reading \<Rightarrow> TimeRangeOp list \<Rightarrow> TimeRange \<times> real \<Rightarrow> TimeRange \<times> real" where
  "applyOps reading ops s = foldl (applyOp reading) s ops"

fun deliverableOp :: "TimeRangeOp \<Rightarrow> bool" where
  "deliverableOp (Scale k pivot) = deliverable k"
| "deliverableOp (Translate dt) = True"

section \<open>The scene and the state of a chart\<close>

text \<open>
  A spike is an SVG line with the datum bound to it. A line whose attributes were never
  set has SVG's defaults: coordinates zero, stroke width one, no class, no listeners.
  \<open>handlers\<close> says that the \<^verbatim>\<open>mouseover\<close> and \<^verbatim>\<open>mouseleave\<close>
  listeners are attached.
\<close>

record SpikeLine =
  datum :: Datum
  x1 :: real
  x2 :: real
  y1 :: real
  y2 :: real
  spikeClass :: string
  stroke :: string
  strokeWidth :: real
  handlers :: bool

record Group =
  groupId :: string
  lines :: "SpikeLine list"

record GridLine =
  gridX1 :: real
  gridX2 :: real
  gridY1 :: real
  gridY2 :: real

record Axes =
  xAxis :: ScaleLinear
  yAxis :: ScaleBand

text \<open>
  A tooltip primitive carries its id (prefix, time, series name; the source builds
  \<^verbatim>\<open>r<time>-<name>\<close>, \<^verbatim>\<open>tn<time>-<name>\<close> and \<^verbatim>\<open>t<time>-<name>\<close>), its
  position, and for the rectangle its width and height. A vertical position is an
  option because \<open>tooltipY\<close> may add \<open>spikeLineHeight\<close>.
\<close>

datatype TooltipPrim =
  TipRect "string \<times> real \<times> string" real "real option" real real
| TipText "string \<times> real \<times> string" real "real option"

fun isRect :: "TooltipPrim \<Rightarrow> bool" where
  "isRect (TipRect i x y w h) = True"
| "isRect (TipText i x y) = False"

record MagnifierRect =
  magX :: real
  magY :: real
  magWidth :: real
  magHeight :: real
  magOpacity :: real

record TrackerLine =
  trackX1 :: real
  trackX2 :: real
  trackY1 :: real
  trackY2 :: real
  trackOpacity :: real

datatype MoveListener = NoListener | MagnifyListener | TrackerListener

text \<open>
  The state of one chart: the references of the component (\<^verbatim>\<open>useRef\<close>) and the
  scene under the SVG element. \<open>containerRef\<close> says whether the SVG element is
  attached; \<open>mainGRef\<close> whether the main group exists; \<open>groups\<close> are the series
  groups under the main group, in document order, and \<open>gridLines\<close> its grid lines;
  \<open>tooltips\<close> are the elements of class \<^verbatim>\<open>tooltip\<close>; \<open>mousemove\<close> is the
  listener of the SVG element (registering one replaces the other). An element whose
  reference was dropped stays in the document, but nothing reads or writes it again; the
  state keeps the referenced one only.
\<close>

record ChartState =
  containerRef :: bool
  mainGRef :: bool
  groups :: "Group list"
  gridLines :: "GridLine list"
  axesRef :: "Axes option"
  magnifierRef :: "MagnifierRect option"
  trackerRef :: "TrackerLine option"
  mousemove :: MoveListener
  tooltips :: "TooltipPrim list"
  tooltipRef :: TooltipStyle
  timeRangeRef :: TimeRange
  mouseCoordsRef :: real
  zoomFactorRef :: real

text \<open>The chart right after mounting, before its first effect has run.\<close>

definition mountedChart :: "Props \<Rightarrow> TimeRange \<Rightarrow> ChartState" where
  "mountedChart p r =
     \<lparr>containerRef = True, mainGRef = False, groups = [], gridLines = [],
      axesRef = None, magnifierRef = None, trackerRef = None, mousemove = NoListener,
      tooltips = [], tooltipRef = tooltip p, timeRangeRef = r,
      mouseCoordsRef = 0, zoomFactorRef = 1\<rparr>"

datatype error = TypeError | SyntaxError

section \<open>Reconciling the scene with the data\<close>

definition xScaleOf :: "Props \<Rightarrow> TimeRange \<Rightarrow> ScaleLinear" where
  "xScaleOf p r = \<lparr>d0 = start r, d1 = endT r, r0 = 0, r1 = dimWidth (plotDimensions p)\<rparr>"

text \<open>The filter of line 669: the datums in view.\<close>

definition inView :: "TimeRange \<Rightarrow> Datum \<Rightarrow> bool" where
  "inView r d = (time d \<ge> start r \<and> time d \<le> endT r)"

definition bareLine :: "Datum \<Rightarrow> SpikeLine" where
  "bareLine d =
     \<lparr>datum = d, x1 = 0, x2 = 0, y1 = 0, y2 = 0, spikeClass = [], stroke = ''none'',
      strokeWidth = 1, handlers = False\<rparr>"

text \<open>
  Entering (lines 674 to 691): a line is appended for the datum; the attributes and the
  two listeners are set on the lines that pass the filter of line 677. The pixel
  position the source stores on the datum (\<^verbatim>\<open>datum.x\<close>) is read back at once and is
  written here as the value it has.
\<close>

definition enterLine ::
  "Props \<Rightarrow> ScaleLinear \<Rightarrow> real \<Rightarrow> real \<Rightarrow> TimeRange \<Rightarrow> Datum \<Rightarrow> SpikeLine" where
  "enterLine p xScale y lineHeight r d =
     (if time d \<ge> start r
      then \<lparr>datum = d,
            x1 = applyScale xScale (time d),
            x2 = applyScale xScale (time d),
            y1 = y + spikeMargin (spikesStyle p),
            y2 = y + lineHeight - spikeMargin (spikesStyle p),
            spikeClass = ''spikes-lines'',
            stroke = color (spikesStyle p),
            strokeWidth = lineWidth (spikesStyle p),
            handlers = True\<rparr>
      else bareLine d)"

text \<open>
  Updating (lines 694 to 701): the join binds the new datum to the line; the position is
  set on the lines that pass the filter of line 695.
\<close>

definition updateLine ::
  "Props \<Rightarrow> ScaleLinear \<Rightarrow> real \<Rightarrow> real \<Rightarrow> TimeRange \<Rightarrow> SpikeLine \<Rightarrow> Datum \<Rightarrow> SpikeLine" where
  "updateLine p xScale y lineHeight r l d =
     (if time d \<ge> start r
      then l\<lparr>datum := d,
             x1 := applyScale xScale (time d),
             x2 := applyScale xScale (time d),
             y1 := y + spikeMargin (spikesStyle p),
             y2 := y + lineHeight - spikeMargin (spikesStyle p)\<rparr>
      else l\<lparr>datum := d\<rparr>)"

text \<open>
  The data join of d3 with no key function pairs lines and datums by index: a line with
  a datum is updated, a datum with no line enters (appended after the others), a line
  with no datum exits and is removed (line 704).
\<close>

fun joinLines ::
  "(Datum \<Rightarrow> SpikeLine) \<Rightarrow> (SpikeLine \<Rightarrow> Datum \<Rightarrow> SpikeLine) \<Rightarrow>
   SpikeLine list \<Rightarrow> Datum list \<Rightarrow> SpikeLine list" where
  "joinLines enter update ls [] = []"
| "joinLines enter update [] (d # ds) = enter d # joinLines enter update [] ds"
| "joinLines enter update (l # ls) (d # ds) = update l d # joinLines enter update ls ds"

text \<open>
  \<^verbatim>\<open>svg.select('#' + name)\<close>: the first group with that id. Series names are taken
  to be valid CSS identifiers, and no other element of the scene to carry a series name
  as its id.
\<close>

fun findGroup :: "string \<Rightarrow> Group list \<Rightarrow> nat option" where
  "findGroup nm [] = None"
| "findGroup nm (g # gs) =
     (if groupId g = nm then Some 0 else map_option Suc (findGroup nm gs))"

text \<open>The body of the loop over the series (lines 665 to 706).\<close>

definition reconcile ::
  "Props \<Rightarrow> ScaleLinear \<Rightarrow> ScaleBand \<Rightarrow> real \<Rightarrow> ChartState \<Rightarrow> Series \<Rightarrow> ChartState" where
  "reconcile p xScale yScale lineHeight st series =
     (case findGroup (name series) (groups st) of
        None \<Rightarrow> st
      | Some i \<Rightarrow>
          (let r = timeRangeRef st;
               visibleData = filter (inView r) (data series);
               y = orZero (bandPos yScale (name series));
               g = groups st ! i
           in st\<lparr>groups := (groups st)
                 [i := g\<lparr>lines := joinLines (enterLine p xScale y lineHeight r)
                                   (updateLine p xScale y lineHeight r) (lines g) visibleData\<rparr>]\<rparr>))"

text \<open>Setting up the magnifier and the tracker, once each (lines 476 to 548).\<close>

definition setUpMagnifier :: "Props \<Rightarrow> ChartState \<Rightarrow> ChartState" where
  "setUpMagnifier p st =
     (if magnifierVisible (magnifier p) \<and> magnifierRef st = None
      then st\<lparr>magnifierRef := Some
                 \<lparr>magX = 0, magY = top_margin (margin p), magWidth = 0,
                  magHeight = dimHeight (plotDimensions p) - top_margin (margin p),
                  magOpacity = 1\<rparr>,
              mousemove := MagnifyListener\<rparr>
      else if \<not> magnifierVisible (magnifier p) \<and> magnifierRef st \<noteq> None
      then st\<lparr>magnifierRef := None\<rparr>
      else st)"

definition setUpTracker :: "Props \<Rightarrow> ChartState \<Rightarrow> ChartState" where
  "setUpTracker p st =
     (if trackerVisible (tracker p) \<and> trackerRef st = None
      then st\<lparr>trackerRef := Some
                 \<lparr>trackX1 = 0, trackX2 = 0, trackY1 = top_margin (margin p),
                  trackY2 = dimHeight (plotDimensions p), trackOpacity = 0\<rparr>,
              mousemove := TrackerListener\<rparr>
      else if \<not> trackerVisible (tracker p) \<and> trackerRef st \<noteq> None
      then st\<lparr>trackerRef := None\<rparr>
      else st)"

text \<open>
  The main group, once; on every later pass the series groups are joined with the
  series list by index, and a group is appended for each series beyond the groups that
  exist, with the name of that series as its id (lines 552 to 569).
\<close>

definition newGroup :: "Series \<Rightarrow> Group" where
  "newGroup series = \<lparr>groupId = name series, lines = []\<rparr>"

definition setUpMainG :: "Props \<Rightarrow> ChartState \<Rightarrow> ChartState" where
  "setUpMainG p st =
     (if \<not> mainGRef st
      then st\<lparr>mainGRef := True\<rparr>
      else st\<lparr>groups := groups st @ map newGroup (drop (length (groups st)) (seriesList p))\<rparr>)"

text \<open>
  The axes and the grid lines, once; on later passes the axes get the new scales
  (lines 607 to 663).
\<close>

definition gridLine :: "Props \<Rightarrow> ScaleBand \<Rightarrow> real \<Rightarrow> string \<Rightarrow> GridLine" where
  "gridLine p yScale lineHeight d =
     \<lparr>gridX1 = left (margin p),
      gridX2 = left (margin p) + dimWidth (plotDimensions p),
      gridY1 = orZero (bandPos yScale d) + top_margin (margin p) + lineHeight / 2,
      gridY2 = orZero (bandPos yScale d) + top_margin (margin p) + lineHeight / 2\<rparr>"

definition setUpAxes :: "Props \<Rightarrow> ScaleLinear \<Rightarrow> ScaleBand \<Rightarrow> ChartState \<Rightarrow> ChartState" where
  "setUpAxes p xScale yScale st =
     (case axesRef st of
        None \<Rightarrow>
          (let st1 = st\<lparr>axesRef := Some \<lparr>xAxis = xScale, yAxis = yScale\<rparr>\<rparr>
           in if plotGridLinesVisible p
              then st1\<lparr>gridLines := gridLines st1 @
                     (case spikeLineHeight p of
                        None \<Rightarrow> []
                      | Some lineHeight \<Rightarrow>
                          map (gridLine p yScale lineHeight) (map name (seriesList p)))\<rparr>
              else st1)
      | Some axes \<Rightarrow> st\<lparr>axesRef := Some (axes\<lparr>xAxis := xScale, yAxis := yScale\<rparr>)\<rparr>)"

text \<open>
  \<^verbatim>\<open>updatePlot\<close> (lines 465 to 708). With no series the line height is not a
  finite number; the grid-line join and the loop over the series then have nothing to
  visit.
\<close>

definition updatePlot :: "Props \<Rightarrow> TimeRange \<Rightarrow> ChartState \<Rightarrow> ChartState" where
  "updatePlot p timeRange st =
     (let st1 = st\<lparr>tooltipRef := tooltip p, timeRangeRef := timeRange\<rparr>
      in if containerRef st1
         then (let st2 = setUpMainG p (setUpTracker p (setUpMagnifier p st1));
                   xScale = xScaleOf p (timeRangeRef st2);
                   yScale = yScaleOf p;
                   st3 = setUpAxes p xScale yScale st2
               in case spikeLineHeight p of
                    None \<Rightarrow> st3
                  | Some lineHeight \<Rightarrow>
                      foldl (reconcile p xScale yScale lineHeight) st3 (seriesList p))
         else st1)"

text \<open>Every spike of the scene has its two listeners.\<close>

definition allHandlers :: "ChartState \<Rightarrow> bool" where
  "allHandlers st = list_all (\<lambda>g. list_all handlers (lines g)) (groups st)"

text \<open>The series group at an index exists and holds no line.\<close>

definition emptyGroup :: "ChartState \<Rightarrow> nat \<Rightarrow> bool" where
  "emptyGroup st i = (i < length (groups st) \<and> lines (groups st ! i) = [])"

text \<open>The scene shows no spike: no series group holds a line.\<close>

definition noSpikes :: "ChartState \<Rightarrow> bool" where
  "noSpikes st = list_all (\<lambda>g. lines g = []) (groups st)"

text \<open>
  The loop over the series looks the group of a series up with the selector made of
  \<open>#\<close> and the name of the series (line 667). The document refuses a selector that is
  not well formed with a \<open>SyntaxError\<close>, and nothing in \<open>updatePlot\<close> catches it.
  Only what is certain of a name is modelled. A name of ASCII letters, digits,
  underscores and hyphens that starts with a letter or an underscore, or with a hyphen
  and then a letter or an underscore, is an identifier: the selector is the id selector
  that \<open>findGroup\<close> models. The empty name and a name that starts with a digit give no
  selector at all. Any other name (one with a space, a dot, an escape or a character
  outside ASCII) may be read as another selector or be refused, and is left undecided.
\<close>

definition identStart :: "char \<Rightarrow> bool" where
  "identStart c = (c \<in> set ''abcdefghijklmnopqrstuvwxyzABCDEFGHIJKLMNOPQRSTUVWXYZ_'')"

definition identChar :: "char \<Rightarrow> bool" where
  "identChar c = (identStart c \<or> c \<in> set ''0123456789-'')"

definition digit :: "char \<Rightarrow> bool" where
  "digit c = (c \<in> set ''0123456789'')"

fun cssIdentifier :: "string \<Rightarrow> bool" where
  "cssIdentifier [] = False"
| "cssIdentifier [c] = identStart c"
| "cssIdentifier (c # d # cs) =
     ((identStart c \<or> (c = CHR ''-'' \<and> identStart d)) \<and> list_all identChar (d # cs))"

datatype SelectorKind = IdSelector | NoSelector | OtherSelector

fun hashSelector :: "string \<Rightarrow> SelectorKind" where
  "hashSelector [] = NoSelector"
| "hashSelector (c # cs) =
     (if cssIdentifier (c # cs) then IdSelector
      else if digit c then NoSelector else OtherSelector)"

fun firstOther :: "string list \<Rightarrow> SelectorKind" where
  "firstOther [] = IdSelector"
| "firstOther (nm # nms) =
     (case hashSelector nm of IdSelector \<Rightarrow> firstOther nms | k \<Rightarrow> k)"

text \<open>
  The outcome of a pass of \<open>updatePlot\<close> (lines 465 to 708). A chart that is not
  attached is left alone. On an attached chart the loop of lines 665 to 706 reads one
  selector for each series, in the order of the list, whatever the data of the series:
  when every name is an identifier the pass returns the state that \<open>updatePlot\<close>
  computes; when the first name that is not an identifier gives no selector the pass
  raises \<open>SyntaxError\<close>; otherwise the outcome is undecided, \<open>None\<close>.
\<close>

definition updatePlotOutcome ::
  "Props \<Rightarrow> TimeRange \<Rightarrow> ChartState \<Rightarrow> (error + ChartState) option" where
  "updatePlotOutcome p r st =
     (if containerRef st
      then (case firstOther (map name (seriesList p)) of
              IdSelector \<Rightarrow> Some (Inr (updatePlot p r st))
            | NoSelector \<Rightarrow> Some (Inl SyntaxError)
            | OtherSelector \<Rightarrow> None)
      else Some (Inr (updatePlot p r st)))"

section \<open>Panning and zooming\<close>

text \<open>
  \<^verbatim>\<open>onPan\<close> (lines 210 to 217) and \<^verbatim>\<open>onZoom\<close> (lines 198 to 203). Reading the
  scale of axes that do not exist yet is a TypeError. \<open>onZoom\<close> calls the absent
  \<open>scale\<close>; the reading of it is a parameter, and the factor the range remembers is the
  one kept in \<open>zoomFactorRef\<close>.
\<close>

definition onPan :: "Props \<Rightarrow> real \<Rightarrow> ChartState \<Rightarrow> error + ChartState" where
  "onPan p deltaX st =
     (case axesRef st of
        None \<Rightarrow> Inl TypeError
      | Some axes \<Rightarrow>
          (let currentTime = start (timeRangeRef st);
               x = applyScale (xAxis axes) currentTime;
               deltaTime = invert (xAxis axes) (x + deltaX) - currentTime
           in Inr (updatePlot p (translate (- deltaTime) (timeRangeRef st)) st)))"

definition onZoom :: "Props \<Rightarrow> Reading \<Rightarrow> real \<Rightarrow> real \<Rightarrow> ChartState \<Rightarrow> error + ChartState" where
  "onZoom p reading k x st =
     (case axesRef st of
        None \<Rightarrow> Inl TypeError
      | Some axes \<Rightarrow>
          (let t = invert (xAxis axes) x;
               st1 = st\<lparr>timeRangeRef := scale reading (zoomFactorRef st) k t (timeRangeRef st)\<rparr>;
               st2 = st1\<lparr>zoomFactorRef := k\<rparr>
           in Inr (updatePlot p (timeRangeRef st2) st2)))"

text \<open>
  The two gestures that change the time range, and a run of them; it stops at the first
  error. A chart is ready for gestures once it is attached, has its axes, shows an
  ordered range and remembers a factor that is not negative.
\<close>

datatype Gesture = Zoom real real | Pan real

fun gesture :: "Props \<Rightarrow> Reading \<Rightarrow> Gesture \<Rightarrow> ChartState \<Rightarrow> error + ChartState" where
  "gesture p reading (Zoom k x) st = onZoom p reading k x st"
| "gesture p reading (Pan deltaX) st = onPan p deltaX st"

fun gestures :: "Props \<Rightarrow> Reading \<Rightarrow> Gesture list \<Rightarrow> ChartState \<Rightarrow> error + ChartState" where
  "gestures p reading [] st = Inr st"
| "gestures p reading (g # gs) st =
     (case gesture p reading g st of Inl e \<Rightarrow> Inl e | Inr st' \<Rightarrow> gestures p reading gs st')"

fun deliverableGesture :: "Gesture \<Rightarrow> bool" where
  "deliverableGesture (Zoom k x) = deliverable k"
| "deliverableGesture (Pan deltaX) = True"

definition ready :: "ChartState \<Rightarrow> bool" where
  "ready st = (containerRef st \<and> axesRef st \<noteq> None \<and>
               start (timeRangeRef st) \<le> endT (timeRangeRef st) \<and> 0 \<le> zoomFactorRef st)"

section \<open>The tooltip\<close>

text \<open>
  The handlers are closures of the render that attached them: \<open>p\<close> is the
  configuration that render saw, the references are shared by all renders. The sizes of
  the two texts come from the browser (\<^verbatim>\<open>getBBox\<close>) and are an input.
\<close>

record TextBoxes =
  headerWidth :: real
  textWidth :: real
  headerTextHeight :: real
  idHeight :: real

text \<open>\<^verbatim>\<open>tooltipX\<close> (lines 309 to 318) and \<^verbatim>\<open>tooltipY\<close> (lines 327 to 331).\<close>

definition tooltipX :: "Props \<Rightarrow> ScaleLinear \<Rightarrow> real \<Rightarrow> real \<Rightarrow> real" where
  "tooltipX p xScale t w =
     min (max (applyScale xScale t) (w / 2)) (dimWidth (plotDimensions p) - w / 2)
       + left (margin p) - w / 2 - paddingLeft (tooltip p)"

definition tooltipY :: "Props \<Rightarrow> ScaleBand \<Rightarrow> string \<Rightarrow> real \<Rightarrow> real option" where
  "tooltipY p yScale seriesName textHeight =
     (let y = orZero (bandPos yScale seriesName) + top_margin (margin p)
                - paddingBottom (tooltip p) - textHeight - paddingTop (tooltip p)
      in if y > 0 then Some y
         else map_option
                (\<lambda>h. y + paddingBottom (tooltip p) + textHeight + paddingTop (tooltip p) + h)
                (spikeLineHeight p))"

text \<open>A spike is referred to by the index of its group and its index in the group.\<close>

definition spikeAt :: "nat \<times> nat \<Rightarrow> Group list \<Rightarrow> (Group \<times> SpikeLine) option" where
  "spikeAt spike gs =
     (if fst spike < length gs \<and> snd spike < length (lines (gs ! fst spike))
      then Some (gs ! fst spike, lines (gs ! fst spike) ! snd spike)
      else None)"

definition updateSpike :: "nat \<times> nat \<Rightarrow> (SpikeLine \<Rightarrow> SpikeLine) \<Rightarrow> Group list \<Rightarrow> Group list" where
  "updateSpike spike f gs =
     (case spikeAt spike gs of
        None \<Rightarrow> gs
      | Some (g, l) \<Rightarrow> gs[fst spike := g\<lparr>lines := (lines g)[snd spike := f l]\<rparr>])"

text \<open>\<^verbatim>\<open>handleShowTooltip\<close> (lines 225 to 300).\<close>

definition handleShowTooltip ::
  "Props \<Rightarrow> TextBoxes \<Rightarrow> Datum \<Rightarrow> string \<Rightarrow> nat \<times> nat \<Rightarrow> ChartState \<Rightarrow> error + ChartState" where
  "handleShowTooltip p m d seriesName spike st =
     (if \<not> visible (tooltipRef st) then Inr st
      else
        (let st1 = st\<lparr>groups := updateSpike spike
                      (\<lambda>l. l\<lparr>stroke := highlightColor (spikesStyle p),
                              strokeWidth := highlightWidth (spikesStyle p)\<rparr>) (groups st)\<rparr>
         in if visible (tooltipRef st1)
            then (case axesRef st1 of
                    None \<Rightarrow> Inl TypeError
                  | Some axes \<Rightarrow>
                      (let tip = tooltipRef st1;
                           tooltipWidth = max (headerWidth m) (textWidth m);
                           textHeight = headerTextHeight m + idHeight m;
                           x = tooltipX p (xAxis axes) (time d) tooltipWidth;
                           y = tooltipY p (yAxis axes) seriesName textHeight;
                           rect = TipRect (''r'', time d, seriesName) x y
                                    (tooltipWidth + paddingLeft tip + paddingRight tip)
                                    (textHeight + paddingTop tip + paddingBottom tip);
                           header = TipText (''tn'', time d, seriesName)
                                      (x + paddingLeft tip)
                                      (map_option
                                         (\<lambda>y. y - idHeight m + textHeight + paddingTop tip) y);
                           body = TipText (''t'', time d, seriesName)
                                    (x + paddingLeft tip)
                                    (map_option (\<lambda>y. y + textHeight + paddingTop tip) y)
                       in Inr (st1\<lparr>tooltips := tooltips st1 @ [rect, header, body]\<rparr>)))
            else Inr st1))"

text \<open>\<^verbatim>\<open>handleHideTooltip\<close> (lines 346 to 355).\<close>

definition handleHideTooltip ::
  "Props \<Rightarrow> Datum \<Rightarrow> string \<Rightarrow> nat \<times> nat \<Rightarrow> ChartState \<Rightarrow> ChartState" where
  "handleHideTooltip p d seriesName spike st =
     (let st1 = st\<lparr>groups := updateSpike spike
                   (\<lambda>l. l\<lparr>stroke := color (spikesStyle p),
                           strokeWidth := lineWidth (spikesStyle p)\<rparr>) (groups st)\<rparr>
      in if visible (tooltipRef st1) then st1\<lparr>tooltips := []\<rparr> else st1)"

text \<open>
  The pointer entering and leaving a spike: the listeners attached at lines 689 and 690
  run, with the datum bound to the line and the name of the series of its group.
\<close>

definition mouseover :: "Props \<Rightarrow> TextBoxes \<Rightarrow> nat \<times> nat \<Rightarrow> ChartState \<Rightarrow> error + ChartState" where
  "mouseover p m spike st =
     (case spikeAt spike (groups st) of
        None \<Rightarrow> Inr st
      | Some (g, l) \<Rightarrow>
          if handlers l then handleShowTooltip p m (datum l) (groupId g) spike st else Inr st)"

definition mouseleave :: "Props \<Rightarrow> nat \<times> nat \<Rightarrow> ChartState \<Rightarrow> ChartState" where
  "mouseleave p spike st =
     (case spikeAt spike (groups st) of
        None \<Rightarrow> st
      | Some (g, l) \<Rightarrow>
          if handlers l then handleHideTooltip p (datum l) (groupId g) spike st else st)"

section \<open>The magnifier and the tracker\<close>

text \<open>
  \<^verbatim>\<open>barMagnifier.ts\<close> is not among the sources: the lens is a parameter, a
  function of the half width, the power, the centre and the coordinate.
\<close>

record LensTransformation =
  xPrime :: real
  magnification :: real

type_synonym BarMagnifier = "real \<Rightarrow> real \<Rightarrow> real \<Rightarrow> real \<Rightarrow> LensTransformation"

definition inMagnifier :: "Props \<Rightarrow> ScaleLinear \<Rightarrow> Datum \<Rightarrow> real \<Rightarrow> real \<Rightarrow> bool" where
  "inMagnifier p xScale d x xInterval =
     (let datumX = applyScale xScale (time d) + left (margin p)
      in datumX > x - xInterval \<and> datumX < x + xInterval)"

text \<open>\<^verbatim>\<open>selectAll('.spikes-lines')\<close>: the lines of that class, in every group.\<close>

definition isSpike :: "SpikeLine \<Rightarrow> bool" where
  "isSpike l = (spikeClass l = ''spikes-lines'')"

definition mapSpikes :: "(SpikeLine \<Rightarrow> SpikeLine) \<Rightarrow> Group list \<Rightarrow> Group list" where
  "mapSpikes f gs = map (\<lambda>g. g\<lparr>lines := map (\<lambda>l. if isSpike l then f l else l) (lines g)\<rparr>) gs"

definition anySpike :: "Group list \<Rightarrow> bool" where
  "anySpike gs = list_ex (\<lambda>g. list_ex isSpike (lines g)) gs"

definition magnifySpike ::
  "Props \<Rightarrow> BarMagnifier \<Rightarrow> ScaleLinear \<Rightarrow> real \<Rightarrow> real \<Rightarrow> real \<Rightarrow> SpikeLine \<Rightarrow> SpikeLine" where
  "magnifySpike p barMagnifier xScale deltaX zoomFactor x l =
     (if inMagnifier p xScale (datum l) x (4 * deltaX)
      then (let lens = barMagnifier deltaX (3 * zoomFactor) (x - left (margin p))
                         (applyScale xScale (time (datum l)))
            in l\<lparr>x1 := xPrime lens, x2 := xPrime lens,
                 strokeWidth := lineWidth (spikesStyle p) * min 2 (max (magnification lens) 1)\<rparr>)
      else l)"

definition restoreSpike :: "Props \<Rightarrow> ScaleLinear \<Rightarrow> SpikeLine \<Rightarrow> SpikeLine" where
  "restoreSpike p xScale l =
     l\<lparr>x1 := applyScale xScale (time (datum l)), x2 := applyScale xScale (time (datum l)),
       strokeWidth := lineWidth (spikesStyle p)\<rparr>"

text \<open>
  \<^verbatim>\<open>handleShowMagnify\<close> (lines 363 to 432), with the pointer at \<open>(x, y)\<close>. The
  scale of the axes is read once for each spike visited, so axes that do not exist are a
  TypeError only when there is a spike to visit.
\<close>

definition handleShowMagnify ::
  "Props \<Rightarrow> BarMagnifier \<Rightarrow> real \<Rightarrow> real \<Rightarrow> ChartState \<Rightarrow> error + ChartState" where
  "handleShowMagnify p barMagnifier x y st =
     (case (containerRef st, magnifierRef st) of
        (True, Some path) \<Rightarrow>
          (let isMouseInPlot = mouseInPlotArea p x y;
               deltaX = magnifierWidth (magnifier p) / 2;
               path1 = path\<lparr>magX := x - deltaX, magWidth := 2 * deltaX,
                            magOpacity := (if isMouseInPlot then 1 else 0)\<rparr>;
               st1 = st\<lparr>magnifierRef := Some path1\<rparr>
           in if isMouseInPlot \<and> \<bar>x - mouseCoordsRef st\<bar> \<ge> 1
              then (case axesRef st1 of
                      None \<Rightarrow>
                        if anySpike (groups st1) then Inl TypeError
                        else Inr (st1\<lparr>mouseCoordsRef := x\<rparr>)
                    | Some axes \<Rightarrow>
                        Inr (st1\<lparr>groups := mapSpikes
                                   (magnifySpike p barMagnifier (xAxis axes) deltaX
                                      (zoomFactorRef st1) x) (groups st1),
                                 mouseCoordsRef := x\<rparr>))
              else if \<not> isMouseInPlot
              then (let st2 = st1\<lparr>magnifierRef := Some (path1\<lparr>magX := left (margin p),
                                                               magWidth := 0\<rparr>),
                                  mouseCoordsRef := 0\<rparr>
                    in case axesRef st1 of
                         None \<Rightarrow> if anySpike (groups st1) then Inl TypeError else Inr st2
                       | Some axes \<Rightarrow>
                           Inr (st2\<lparr>groups := mapSpikes (restoreSpike p (xAxis axes))
                                                 (groups st1)\<rparr>))
              else Inr st1)
      | _ \<Rightarrow> Inr st)"

text \<open>\<^verbatim>\<open>handleShowTracker\<close> (lines 439 to 448).\<close>

definition handleShowTracker :: "Props \<Rightarrow> real \<Rightarrow> real \<Rightarrow> ChartState \<Rightarrow> ChartState" where
  "handleShowTracker p x y st =
     (case (containerRef st, trackerRef st) of
        (True, Some path) \<Rightarrow>
          st\<lparr>trackerRef := Some (path\<lparr>trackX1 := x, trackX2 := x,
                                      trackOpacity := (if mouseInPlotArea p x y then 1 else 0)\<rparr>)\<rparr>
      | _ \<Rightarrow> st)"

text \<open>The pointer moving over the SVG element, at \<open>(x, y)\<close>.\<close>

definition mouseMoved ::
  "Props \<Rightarrow> BarMagnifier \<Rightarrow> real \<Rightarrow> real \<Rightarrow> ChartState \<Rightarrow> error + ChartState" where
  "mouseMoved p barMagnifier x y st =
     (case mousemove st of
        NoListener \<Rightarrow> Inr st
      | MagnifyListener \<Rightarrow> handleShowMagnify p barMagnifier x y st
      | TrackerListener \<Rightarrow> Inr (handleShowTracker p x y st))"

section \<open>A concrete chart\<close>

text \<open>
  One series \<open>n0\<close> with datums at 10, 500 and 1200, shown over the window from 0 to
  1000, with the default margins and spike style; tooltip, magnifier and tracker are
  switched on.
\<close>

definition exampleMargin :: Margin where
  "exampleMargin = \<lparr>top_margin = 30, right = 20, bottom = 30, left = 50\<rparr>"

definition exampleSeries :: Series where
  "exampleSeries =
     \<lparr>name = ''n0'',
      data = [\<lparr>time = 10, val = 1\<rparr>, \<lparr>time = 500, val = 1\<rparr>, \<lparr>time = 1200, val = 1\<rparr>]\<rparr>"

definition exampleProps :: Props where
  "exampleProps =
     \<lparr>width = 900, height = 400, margin = exampleMargin,
      spikesStyle = \<lparr>spikeMargin = 2, color = ''#c95d15'', lineWidth = 2,
                     highlightColor = ''#d2933f'', highlightWidth = 4\<rparr>,
      plotGridLinesVisible = True,
      tooltip = \<lparr>visible = True, paddingLeft = 10, paddingRight = 10, paddingTop = 5,
                 paddingBottom = 10\<rparr>,
      magnifier = \<lparr>magnifierVisible = True, magnifierWidth = 75\<rparr>,
      tracker = \<lparr>trackerVisible = True\<rparr>,
      seriesList = [exampleSeries]\<rparr>"

definition exampleRange :: TimeRange where
  "exampleRange = \<lparr>start = 0, endT = 1000\<rparr>"

definition firstPass :: ChartState where
  "firstPass = updatePlot exampleProps exampleRange (mountedChart exampleProps exampleRange)"

definition secondPass :: ChartState where
  "secondPass = updatePlot exampleProps exampleRange firstPass"

text \<open>A band scale that does not know the series \<open>n0\<close>.\<close>

definition otherScale :: ScaleBand where
  "otherScale = \<lparr>bandDomain = [''n1''], rangeLo = 0, rangeHi = Some 310\<rparr>"

text \<open>
  The concrete chart with a second series, in the order given and reordered, and with a
  datum appended to its series; the passes that render them.
\<close>

definition secondSeries :: Series where
  "secondSeries = \<lparr>name = ''n1'', data = [\<lparr>time = 20, val = 1\<rparr>]\<rparr>"

definition propsInOrder :: Props where
  "propsInOrder = exampleProps\<lparr>seriesList := [exampleSeries, secondSeries]\<rparr>"

definition propsReordered :: Props where
  "propsReordered = exampleProps\<lparr>seriesList := [secondSeries, exampleSeries]\<rparr>"

definition propsMoreData :: Props where
  "propsMoreData =
     exampleProps\<lparr>seriesList :=
       [exampleSeries\<lparr>data := data exampleSeries @ [\<lparr>time = 1300, val = 1\<rparr>]\<rparr>]\<rparr>"

definition inOrderPass :: ChartState where
  "inOrderPass =
     updatePlot propsInOrder exampleRange
       (updatePlot propsInOrder exampleRange (mountedChart propsInOrder exampleRange))"

definition reorderedPass :: ChartState where
  "reorderedPass = updatePlot propsReordered exampleRange inOrderPass"

text \<open>
  The concrete chart with the tooltip switched off, sizes for the two texts of a
  tooltip, and two more passes: one that switches the tooltip off, one that switches it
  on again.
\<close>

definition propsHidden :: Props where
  "propsHidden = exampleProps\<lparr>tooltip := (tooltip exampleProps)\<lparr>visible := False\<rparr>\<rparr>"

definition exampleBoxes :: TextBoxes where
  "exampleBoxes = \<lparr>headerWidth = 20, textWidth = 80, headerTextHeight = 14, idHeight = 16\<rparr>"

definition hiddenPass :: ChartState where
  "hiddenPass = updatePlot propsHidden exampleRange secondPass"

definition shownPass :: ChartState where
  "shownPass = updatePlot exampleProps exampleRange hiddenPass"

text \<open>The concrete chart with no series, and a window after the last datum.\<close>

definition propsNoSeries :: Props where
  "propsNoSeries = exampleProps\<lparr>seriesList := []\<rparr>"

definition laterRange :: TimeRange where
  "laterRange = \<lparr>start = 2000, endT = 3000\<rparr>"

text \<open>A series whose name starts with a digit, with no datum in the later window.\<close>

definition digitSeries :: Series where
  "digitSeries = \<lparr>name = ''1'', data = [\<lparr>time = 10, val = 1\<rparr>]\<rparr>"

definition propsDigitName :: Props where
  "propsDigitName = exampleProps\<lparr>seriesList := [digitSeries]\<rparr>"

section \<open>Helper lemmas\<close>

lemmas example_defs =
  exampleMargin_def exampleSeries_def exampleProps_def exampleRange_def

lemmas pass_defs =
  updatePlot_def mountedChart_def setUpMainG_def setUpTracker_def setUpMagnifier_def
  setUpAxes_def spikeLineHeight_def reconcile_def yScaleOf_def xScaleOf_def
  plotDimensions_def adjustedDimensions_def newGroup_def gridLine_def inView_def
  enterLine_def updateLine_def bandPos_def bandIndex_def bandValue_def applyScale_def
  normalize_def interpolateNumber_def Let_def


lemma firstOccurrences_set: "set (firstOccurrences xs) = set xs"
  by (induction xs rule: firstOccurrences.induct) auto

lemma firstPass_eq:
  "firstPass =
   \<lparr>containerRef = True, mainGRef = True, groups = [],
    gridLines = [\<lparr>gridX1 = 50, gridX2 = 880, gridY1 = 200, gridY2 = 200\<rparr>],
    axesRef = Some
      \<lparr>xAxis = \<lparr>d0 = 0, d1 = 1000, r0 = 0, r1 = 830\<rparr>,
       yAxis = \<lparr>bandDomain = [''n0''], rangeLo = 0, rangeHi = Some 310\<rparr>\<rparr>,
    magnifierRef = Some
      \<lparr>magX = 0, magY = 30, magWidth = 0, magHeight = 310, magOpacity = 1\<rparr>,
    trackerRef = Some
      \<lparr>trackX1 = 0, trackX2 = 0, trackY1 = 30, trackY2 = 340, trackOpacity = 0\<rparr>,
    mousemove = TrackerListener, tooltips = [],
    tooltipRef = \<lparr>visible = True, paddingLeft = 10, paddingRight = 10, paddingTop = 5,
                   paddingBottom = 10\<rparr>,
    timeRangeRef = \<lparr>start = 0, endT = 1000\<rparr>, mouseCoordsRef = 0, zoomFactorRef = 1\<rparr>"
  by (simp add: firstPass_def pass_defs example_defs)

lemma secondPass_eq:
  "secondPass =
   \<lparr>containerRef = True, mainGRef = True,
    groups =
      [\<lparr>groupId = ''n0'',
        lines =
          [\<lparr>datum = \<lparr>time = 10, val = 1\<rparr>, x1 = 83 / 10, x2 = 83 / 10, y1 = 2, y2 = 338,
            spikeClass = ''spikes-lines'', stroke = ''#c95d15'', strokeWidth = 2,
            handlers = True\<rparr>,
           \<lparr>datum = \<lparr>time = 500, val = 1\<rparr>, x1 = 415, x2 = 415, y1 = 2, y2 = 338,
            spikeClass = ''spikes-lines'', stroke = ''#c95d15'', strokeWidth = 2,
            handlers = True\<rparr>]\<rparr>],
    gridLines = [\<lparr>gridX1 = 50, gridX2 = 880, gridY1 = 200, gridY2 = 200\<rparr>],
    axesRef = Some
      \<lparr>xAxis = \<lparr>d0 = 0, d1 = 1000, r0 = 0, r1 = 830\<rparr>,
       yAxis = \<lparr>bandDomain = [''n0''], rangeLo = 0, rangeHi = Some 310\<rparr>\<rparr>,
    magnifierRef = Some
      \<lparr>magX = 0, magY = 30, magWidth = 0, magHeight = 310, magOpacity = 1\<rparr>,
    trackerRef = Some
      \<lparr>trackX1 = 0, trackX2 = 0, trackY1 = 30, trackY2 = 340, trackOpacity = 0\<rparr>,
    mousemove = TrackerListener, tooltips = [],
    tooltipRef = \<lparr>visible = True, paddingLeft = 10, paddingRight = 10, paddingTop = 5,
                   paddingBottom = 10\<rparr>,
    timeRangeRef = \<lparr>start = 0, endT = 1000\<rparr>, mouseCoordsRef = 0, zoomFactorRef = 1\<rparr>"
  unfolding secondPass_def firstPass_eq
  by (simp add: pass_defs example_defs)

lemma findGroup_Some:
  "findGroup nm gs = Some i \<Longrightarrow> i < length gs \<and> groupId (gs ! i) = nm"
  by (induction gs arbitrary: i) (auto split: if_splits)

lemma indexOf_None: "indexOf x xs = None \<longleftrightarrow> x \<notin> set xs"
  by (induction xs) auto

lemma bandPos_Undefined: "bandPos sc nm = Undefined \<longleftrightarrow> nm \<notin> set (bandDomain sc)"
  using indexOf_None[of nm "bandDomain sc"]
  by (auto simp: bandPos_def bandIndex_def split: option.splits)

lemma joinLines_datum:
  "map datum (joinLines (enterLine p xs y lh r) (updateLine p xs y lh r) old ds) = ds"
  by (induction "enterLine p xs y lh r" "updateLine p xs y lh r" old ds rule: joinLines.induct)
     (auto simp: enterLine_def updateLine_def bareLine_def)

lemma joinLines_vertical:
  assumes "\<forall>d\<in>set ds. time d \<ge> start r"
      and "l \<in> set (joinLines (enterLine p xs y lh r) (updateLine p xs y lh r) old ds)"
  shows "y1 l = y + spikeMargin (spikesStyle p) \<and> y2 l = y + lh - spikeMargin (spikesStyle p)"
  using assms
  by (induction "enterLine p xs y lh r" "updateLine p xs y lh r" old ds rule: joinLines.induct)
     (auto simp: enterLine_def updateLine_def)

lemma reconcile_lines:
  assumes "findGroup (name series) (groups st) = Some i"
  shows "lines (groups (reconcile p xs ys lh st series) ! i) =
         joinLines (enterLine p xs (orZero (bandPos ys (name series))) lh (timeRangeRef st))
                   (updateLine p xs (orZero (bandPos ys (name series))) lh (timeRangeRef st))
                   (lines (groups st ! i)) (filter (inView (timeRangeRef st)) (data series))"
  using assms findGroup_Some[OF assms] by (simp add: reconcile_def Let_def)

lemmas order_defs = propsInOrder_def propsReordered_def propsMoreData_def secondSeries_def

lemma firstOccurrences_distinct: "distinct xs \<Longrightarrow> firstOccurrences xs = xs"
  by (induction xs) auto

lemma indexOf_firstOccurrences_append:
  "nm \<in> set xs \<Longrightarrow>
   indexOf nm (firstOccurrences (xs @ ys)) = indexOf nm (firstOccurrences xs)"
proof (induction xs arbitrary: ys rule: firstOccurrences.induct)
  case 1
  then show ?case by simp
next
  case (2 x xs)
  show ?case
  proof (cases "nm = x")
    case True
    then show ?thesis by simp
  next
    case False
    with "2.prems" have "nm \<in> set (removeAll x xs)" by simp
    from "2.IH"[OF this, of "removeAll x ys"] False show ?thesis by simp
  qed
qed

lemma reconcile_frame:
  "reconcile p xs ys lh st series = st\<lparr>groups := groups (reconcile p xs ys lh st series)\<rparr>"
  by (simp add: reconcile_def Let_def split: option.splits)

lemma foldl_reconcile_frame:
  "foldl (reconcile p xs ys lh) st ss = st\<lparr>groups := groups (foldl (reconcile p xs ys lh) st ss)\<rparr>"
proof (induction ss arbitrary: st)
  case Nil
  then show ?case by simp
next
  case (Cons s ss)
  have "foldl (reconcile p xs ys lh) st (s # ss) =
        (reconcile p xs ys lh st s)\<lparr>groups := groups (foldl (reconcile p xs ys lh) st (s # ss))\<rparr>"
    using Cons.IH[of "reconcile p xs ys lh st s"] by simp
  also have "\<dots> = st\<lparr>groups := groups (foldl (reconcile p xs ys lh) st (s # ss))\<rparr>"
    by (subst reconcile_frame) simp
  finally show ?case .
qed

lemma foldl_reconcile_fields:
  "containerRef (foldl (reconcile p xs ys lh) st ss) = containerRef st"
  "mainGRef (foldl (reconcile p xs ys lh) st ss) = mainGRef st"
  "gridLines (foldl (reconcile p xs ys lh) st ss) = gridLines st"
  "axesRef (foldl (reconcile p xs ys lh) st ss) = axesRef st"
  "magnifierRef (foldl (reconcile p xs ys lh) st ss) = magnifierRef st"
  "trackerRef (foldl (reconcile p xs ys lh) st ss) = trackerRef st"
  "mousemove (foldl (reconcile p xs ys lh) st ss) = mousemove st"
  "tooltips (foldl (reconcile p xs ys lh) st ss) = tooltips st"
  "tooltipRef (foldl (reconcile p xs ys lh) st ss) = tooltipRef st"
  "timeRangeRef (foldl (reconcile p xs ys lh) st ss) = timeRangeRef st"
  "mouseCoordsRef (foldl (reconcile p xs ys lh) st ss) = mouseCoordsRef st"
  "zoomFactorRef (foldl (reconcile p xs ys lh) st ss) = zoomFactorRef st"
  by (subst foldl_reconcile_frame, simp)+

lemma setUpMagnifier_fields:
  "containerRef (setUpMagnifier p st) = containerRef st"
  "mainGRef (setUpMagnifier p st) = mainGRef st"
  "groups (setUpMagnifier p st) = groups st"
  "gridLines (setUpMagnifier p st) = gridLines st"
  "axesRef (setUpMagnifier p st) = axesRef st"
  "tooltips (setUpMagnifier p st) = tooltips st"
  "tooltipRef (setUpMagnifier p st) = tooltipRef st"
  "timeRangeRef (setUpMagnifier p st) = timeRangeRef st"
  "zoomFactorRef (setUpMagnifier p st) = zoomFactorRef st"
  by (simp_all add: setUpMagnifier_def)

lemma setUpTracker_fields:
  "containerRef (setUpTracker p st) = containerRef st"
  "mainGRef (setUpTracker p st) = mainGRef st"
  "groups (setUpTracker p st) = groups st"
  "gridLines (setUpTracker p st) = gridLines st"
  "axesRef (setUpTracker p st) = axesRef st"
  "tooltips (setUpTracker p st) = tooltips st"
  "tooltipRef (setUpTracker p st) = tooltipRef st"
  "timeRangeRef (setUpTracker p st) = timeRangeRef st"
  "zoomFactorRef (setUpTracker p st) = zoomFactorRef st"
  by (simp_all add: setUpTracker_def)

lemma setUpMainG_fields:
  "containerRef (setUpMainG p st) = containerRef st"
  "gridLines (setUpMainG p st) = gridLines st"
  "axesRef (setUpMainG p st) = axesRef st"
  "tooltips (setUpMainG p st) = tooltips st"
  "tooltipRef (setUpMainG p st) = tooltipRef st"
  "timeRangeRef (setUpMainG p st) = timeRangeRef st"
  "zoomFactorRef (setUpMainG p st) = zoomFactorRef st"
  by (simp_all add: setUpMainG_def)

lemma setUpAxes_fields:
  "containerRef (setUpAxes p xs ys st) = containerRef st"
  "mainGRef (setUpAxes p xs ys st) = mainGRef st"
  "groups (setUpAxes p xs ys st) = groups st"
  "tooltips (setUpAxes p xs ys st) = tooltips st"
  "tooltipRef (setUpAxes p xs ys st) = tooltipRef st"
  "timeRangeRef (setUpAxes p xs ys st) = timeRangeRef st"
  "zoomFactorRef (setUpAxes p xs ys st) = zoomFactorRef st"
  "axesRef (setUpAxes p xs ys st) = Some \<lparr>xAxis = xs, yAxis = ys\<rparr>"
  by (simp_all add: setUpAxes_def Let_def split: option.splits)

lemmas setUp_fields =
  foldl_reconcile_fields setUpMagnifier_fields setUpTracker_fields setUpMainG_fields
  setUpAxes_fields

lemma updatePlot_timeRangeRef: "timeRangeRef (updatePlot p r st) = r"
  by (simp add: updatePlot_def Let_def setUp_fields split: option.splits)

lemma updatePlot_tooltipRef: "tooltipRef (updatePlot p r st) = tooltip p"
  by (simp add: updatePlot_def Let_def setUp_fields split: option.splits)

lemma updatePlot_containerRef: "containerRef (updatePlot p r st) = containerRef st"
  by (simp add: updatePlot_def Let_def setUp_fields split: option.splits)

lemma updatePlot_zoomFactorRef: "zoomFactorRef (updatePlot p r st) = zoomFactorRef st"
  by (simp add: updatePlot_def Let_def setUp_fields split: option.splits)

lemma updatePlot_tooltips: "tooltips (updatePlot p r st) = tooltips st"
  by (simp add: updatePlot_def Let_def setUp_fields split: option.splits)

lemma updatePlot_axesRef:
  "containerRef st \<Longrightarrow>
   axesRef (updatePlot p r st) = Some \<lparr>xAxis = xScaleOf p r, yAxis = yScaleOf p\<rparr>"
  by (simp add: updatePlot_def Let_def setUp_fields split: option.splits)

lemma spanRatio_nonneg:
  "0 \<le> previous \<Longrightarrow> deliverable k \<Longrightarrow> 0 \<le> spanRatio reading previous k"
  by (cases reading) (simp_all add: spanRatio_def deliverable_def scaleExtent_def)

lemma scale_ordered:
  assumes "start r \<le> endT r" "0 \<le> previous" "deliverable k"
  shows "start (scale reading previous k pivot r) \<le> endT (scale reading previous k pivot r)"
proof -
  let ?m = "spanRatio reading previous k"
  from assms(2,3) have m: "0 \<le> ?m" by (rule spanRatio_nonneg)
  have "(endT r - pivot) * ?m + (pivot - start r) * ?m = (endT r - start r) * ?m"
    by (simp add: algebra_simps)
  moreover from assms(1) m have "0 \<le> (endT r - start r) * ?m" by simp
  ultimately have "pivot - (pivot - start r) * ?m \<le> pivot + (endT r - pivot) * ?m"
    by linarith
  then show ?thesis by (simp add: scale_def)
qed

lemma applyOp_ordered:
  assumes "start (fst s) \<le> endT (fst s)" "0 \<le> snd s" "deliverableOp op"
  shows "start (fst (applyOp reading s op)) \<le> endT (fst (applyOp reading s op)) \<and>
         0 \<le> snd (applyOp reading s op)"
proof (cases s)
  case (Pair r previous)
  show ?thesis
  proof (cases op)
    case (Scale k pivot)
    with assms Pair scale_ordered[of r previous k reading pivot] show ?thesis
      by (simp add: deliverable_def scaleExtent_def)
  next
    case (Translate dt)
    with assms Pair show ?thesis by (simp add: translate_def)
  qed
qed

lemma applyOps_ordered:
  assumes "start (fst s) \<le> endT (fst s)" "0 \<le> snd s" "list_all deliverableOp ops"
  shows "start (fst (applyOps reading ops s)) \<le> endT (fst (applyOps reading ops s))"
  using assms unfolding applyOps_def
proof (induction ops arbitrary: s)
  case Nil
  then show ?case by simp
next
  case (Cons op ops)
  from Cons.prems applyOp_ordered[of s op reading]
  have "start (fst (applyOp reading s op)) \<le> endT (fst (applyOp reading s op))"
       "0 \<le> snd (applyOp reading s op)"
    by simp_all
  from Cons.IH[OF this] Cons.prems(3) show ?case by simp
qed

lemma gesture_ready:
  assumes "ready st" "deliverableGesture g"
  shows "\<exists>st'. gesture p reading g st = Inr st' \<and> ready st'"
proof (cases g)
  case (Zoom k x)
  from assms(1) obtain axes where axes: "axesRef st = Some axes"
    by (auto simp: ready_def)
  from assms Zoom have k: "deliverable k" "0 \<le> k"
    by (simp_all add: deliverable_def scaleExtent_def)
  from assms(1) k(1)
  have "start (scale reading (zoomFactorRef st) k (invert (xAxis axes) x) (timeRangeRef st))
        \<le> endT (scale reading (zoomFactorRef st) k (invert (xAxis axes) x) (timeRangeRef st))"
    by (intro scale_ordered) (simp_all add: ready_def)
  with assms(1) axes Zoom k(2) show ?thesis
    by (simp add: onZoom_def Let_def ready_def updatePlot_timeRangeRef updatePlot_containerRef
        updatePlot_axesRef updatePlot_zoomFactorRef)
next
  case (Pan deltaX)
  with assms(1) show ?thesis
    by (auto simp: onPan_def Let_def ready_def updatePlot_timeRangeRef updatePlot_containerRef
        updatePlot_axesRef updatePlot_zoomFactorRef translate_def)
qed

lemma gestures_ready:
  assumes "ready st" "list_all deliverableGesture gs"
  shows "\<exists>st'. gestures p reading gs st = Inr st' \<and> ready st'"
  using assms
proof (induction gs arbitrary: st)
  case Nil
  then show ?case by simp
next
  case (Cons g gs)
  from Cons.prems obtain st1 where st1: "gesture p reading g st = Inr st1" "ready st1"
    using gesture_ready[of st g p reading] by auto
  from Cons.IH[OF st1(2)] Cons.prems(2) st1(1) show ?case by simp
qed

text \<open>
  The factor 1 and the two readings of \<open>scale\<close>: read per call it gives every range
  back; read cumulatively it gives back a range last scaled with the factor 1, and
  widens one last scaled with the factor 2.
\<close>

lemma scale_by_one:
  "scale PerCall previous 1 pivot r = r"
  "scale Cumulative 1 1 pivot r = r"
  "scale Cumulative 2 1 500 \<lparr>start = 250, endT = 750\<rparr> = \<lparr>start = 0, endT = 1000\<rparr>"
  by (simp_all add: scale_def spanRatio_def)

lemma spikeAt_updateSpike:
  "spikeAt spike gs = Some (g, l) \<Longrightarrow>
   spikeAt spike (updateSpike spike f gs) =
     Some (g\<lparr>lines := (lines g)[snd spike := f l]\<rparr>, f l)"
  by (auto simp: spikeAt_def updateSpike_def split: if_splits)

lemma handleShowTooltip_hidden:
  "\<not> visible (tooltipRef st) \<Longrightarrow> handleShowTooltip p m d nm spike st = Inr st"
  by (simp add: handleShowTooltip_def)

lemma handleShowTooltip_visible:
  assumes "visible (tooltipRef st)" "axesRef st \<noteq> None"
  shows "\<exists>st' rect header body.
           handleShowTooltip p m d nm spike st = Inr st' \<and>
           tooltips st' = tooltips st @ [rect, header, body] \<and>
           isRect rect \<and> \<not> isRect header \<and> \<not> isRect body \<and>
           tooltipRef st' = tooltipRef st \<and>
           groups st' = updateSpike spike
             (\<lambda>l. l\<lparr>stroke := highlightColor (spikesStyle p),
                     strokeWidth := highlightWidth (spikesStyle p)\<rparr>) (groups st)"
  using assms by (auto simp: handleShowTooltip_def Let_def)

lemma handleHideTooltip_visible:
  "visible (tooltipRef st) \<Longrightarrow> tooltips (handleHideTooltip p d nm spike st) = []"
  by (simp add: handleHideTooltip_def Let_def)

lemma joinLines_handlers:
  assumes "list_all handlers old" "\<forall>d\<in>set ds. time d \<ge> start r"
  shows "list_all handlers (joinLines (enterLine p xs y lh r) (updateLine p xs y lh r) old ds)"
  using assms
  by (induction "enterLine p xs y lh r" "updateLine p xs y lh r" old ds rule: joinLines.induct)
     (auto simp: enterLine_def updateLine_def)

lemma reconcile_allHandlers:
  assumes "allHandlers st"
  shows "allHandlers (reconcile p xs ys lh st series)"
proof (cases "findGroup (name series) (groups st)")
  case None
  with assms show ?thesis by (simp add: reconcile_def)
next
  case (Some i)
  from findGroup_Some[OF Some] have i: "i < length (groups st)" by simp
  with assms have old: "list_all handlers (lines (groups st ! i))"
    by (simp add: allHandlers_def list_all_length)
  have "\<forall>d \<in> set (filter (inView (timeRangeRef st)) (data series)).
          time d \<ge> start (timeRangeRef st)"
    by (simp add: inView_def)
  from joinLines_handlers[OF old this] assms Some i show ?thesis
    by (auto simp: reconcile_def Let_def allHandlers_def list_all_length nth_list_update)
qed

lemma foldl_reconcile_allHandlers:
  "allHandlers st \<Longrightarrow> allHandlers (foldl (reconcile p xs ys lh) st ss)"
  by (induction ss arbitrary: st) (simp_all add: reconcile_allHandlers)

lemma updatePlot_allHandlers:
  assumes "allHandlers st"
  shows "allHandlers (updatePlot p r st)"
proof -
  have pre: "allHandlers (setUpAxes p xs ys (setUpMainG p (setUpTracker p (setUpMagnifier p s))))"
    if "allHandlers s" for s xs ys
    using that
    by (auto simp: allHandlers_def setUp_fields setUpMainG_def newGroup_def list_all_iff)
  have "allHandlers (st\<lparr>tooltipRef := tooltip p, timeRangeRef := r\<rparr>)"
    using assms by (simp add: allHandlers_def)
  from pre[OF this] foldl_reconcile_allHandlers this show ?thesis
    by (simp add: updatePlot_def Let_def split: option.splits)
qed

lemma hiddenPass_eq: "hiddenPass = secondPass\<lparr>tooltipRef := tooltip propsHidden\<rparr>"
  unfolding hiddenPass_def secondPass_eq
  by (simp add: pass_defs example_defs propsHidden_def)

lemma shownPass_eq: "shownPass = secondPass"
  unfolding shownPass_def hiddenPass_eq secondPass_eq
  by (simp add: pass_defs example_defs propsHidden_def)

lemma findGroup_cong:
  "map groupId gs = map groupId gs' \<Longrightarrow> findGroup nm gs = findGroup nm gs'"
proof (induction gs arbitrary: gs')
  case Nil
  then show ?case by simp
next
  case (Cons g gs)
  then obtain g' gs'' where "gs' = g' # gs''" by (cases gs') auto
  with Cons show ?case by simp
qed

lemma reconcile_groupIds:
  "map groupId (groups (reconcile p xs ys lh st s)) = map groupId (groups st)"
proof (cases "findGroup (name s) (groups st)")
  case None
  then show ?thesis by (simp add: reconcile_def)
next
  case (Some i)
  from findGroup_Some[OF Some] have "i < length (groups st)" by simp
  with Some show ?thesis
    by (simp add: reconcile_def Let_def map_update list_update_same_conv)
qed

lemma reconcile_timeRangeRef:
  "timeRangeRef (reconcile p xs ys lh st s) = timeRangeRef st"
  by (subst reconcile_frame) simp

lemma reconcile_emptyGroup:
  assumes "filter (inView (timeRangeRef st)) (data s) = []"
  shows "emptyGroup st i \<Longrightarrow> emptyGroup (reconcile p xs ys lh st s) i"
    and "findGroup (name s) (groups st) = Some i \<Longrightarrow>
         emptyGroup (reconcile p xs ys lh st s) i"
proof -
  show "emptyGroup (reconcile p xs ys lh st s) i" if "emptyGroup st i"
  proof (cases "findGroup (name s) (groups st)")
    case None
    with that show ?thesis by (simp add: reconcile_def)
  next
    case (Some j)
    from findGroup_Some[OF Some] have "j < length (groups st)" by simp
    with Some assms that show ?thesis
      by (auto simp: emptyGroup_def reconcile_def Let_def nth_list_update)
  qed
  show "emptyGroup (reconcile p xs ys lh st s) i"
    if "findGroup (name s) (groups st) = Some i"
    using that findGroup_Some[OF that] assms
    by (simp add: emptyGroup_def reconcile_def Let_def)
qed

lemma foldl_reconcile_groupIds:
  "map groupId (groups (foldl (reconcile p xs ys lh) st ss)) = map groupId (groups st)"
  by (induction ss arbitrary: st) (simp_all add: reconcile_groupIds)

lemma foldl_reconcile_emptyGroup:
  assumes "\<forall>s \<in> set ss. filter (inView (timeRangeRef st)) (data s) = []"
      and "emptyGroup st i"
  shows "emptyGroup (foldl (reconcile p xs ys lh) st ss) i"
  using assms
proof (induction ss arbitrary: st)
  case Nil
  then show ?case by simp
next
  case (Cons a ss)
  from Cons.prems have a: "filter (inView (timeRangeRef st)) (data a) = []" by simp
  from Cons.prems
  have rest: "\<forall>s \<in> set ss.
          filter (inView (timeRangeRef (reconcile p xs ys lh st a))) (data s) = []"
    by (simp add: reconcile_timeRangeRef)
  from Cons.IH[OF rest reconcile_emptyGroup(1)[OF a Cons.prems(2)]] show ?case
    by simp
qed

lemma foldl_reconcile_nothing_in_view:
  assumes "\<forall>s \<in> set ss. filter (inView (timeRangeRef st)) (data s) = []"
      and "s \<in> set ss" and "findGroup (name s) (groups st) = Some i"
  shows "emptyGroup (foldl (reconcile p xs ys lh) st ss) i"
  using assms
proof (induction ss arbitrary: st)
  case Nil
  then show ?case by simp
next
  case (Cons a ss)
  let ?st1 = "reconcile p xs ys lh st a"
  from Cons.prems(1) have a: "filter (inView (timeRangeRef st)) (data a) = []" by simp
  from Cons.prems(1)
  have rest: "\<forall>s \<in> set ss. filter (inView (timeRangeRef ?st1)) (data s) = []"
    by (simp add: reconcile_timeRangeRef)
  show ?case
  proof (cases "s \<in> set ss")
    case True
    from Cons.prems(3) have "findGroup (name s) (groups ?st1) = Some i"
      using findGroup_cong[OF reconcile_groupIds, of "name s" p xs ys lh st a] by simp
    from Cons.IH[OF rest True this] show ?thesis by simp
  next
    case False
    with Cons.prems(2) have "s = a" by simp
    with reconcile_emptyGroup(2)[OF a, of i p xs ys lh] Cons.prems(3)
    have "emptyGroup ?st1 i" by simp
    from foldl_reconcile_emptyGroup[OF rest this] show ?thesis by simp
  qed
qed

lemma updatePlot_mainGRef: "containerRef st \<Longrightarrow> mainGRef (updatePlot p r st)"
  by (simp add: updatePlot_def Let_def setUp_fields setUpMainG_def split: option.splits)

lemma spikeLineHeight_None: "spikeLineHeight p = None \<longleftrightarrow> seriesList p = []"
  by (simp add: spikeLineHeight_def)

lemma updatePlot_no_series:
  "seriesList p = [] \<Longrightarrow> groups (updatePlot p r st) = groups st"
  by (simp add: updatePlot_def Let_def setUp_fields setUpMainG_def spikeLineHeight_def)

lemma updatePlot_unfold:
  assumes "containerRef st" "seriesList p \<noteq> []"
  shows "\<exists>st3 lh. updatePlot p r st =
           foldl (reconcile p (xScaleOf p r) (yScaleOf p) lh) st3 (seriesList p) \<and>
           timeRangeRef st3 = r"
  using assms
  by (auto simp: updatePlot_def Let_def setUp_fields spikeLineHeight_def)

lemma updatePlot_nothing_in_view:
  assumes c: "containerRef st"
      and out: "\<forall>s \<in> set (seriesList p). filter (inView r) (data s) = []"
      and s: "s \<in> set (seriesList p)"
      and i: "findGroup (name s) (groups (updatePlot p r st)) = Some i"
  shows "lines (groups (updatePlot p r st) ! i) = []"
proof -
  from s have "seriesList p \<noteq> []" by auto
  from updatePlot_unfold[OF c this, of r] obtain st3 lh where
    u: "updatePlot p r st = foldl (reconcile p (xScaleOf p r) (yScaleOf p) lh) st3 (seriesList p)"
    and r: "timeRangeRef st3 = r"
    by blast
  from i u have "findGroup (name s) (groups st3) = Some i"
    using findGroup_cong[OF foldl_reconcile_groupIds,
            of "name s" p "xScaleOf p r" "yScaleOf p" lh st3 "seriesList p"]
    by simp
  with foldl_reconcile_nothing_in_view[of "seriesList p" st3 s i p "xScaleOf p r" "yScaleOf p" lh]
       out s r u
  show ?thesis by (simp add: emptyGroup_def)
qed

lemma reconcile_other:
  assumes "name a \<noteq> nm" "findGroup nm (groups st) = Some i"
  shows "groups (reconcile p xs ys lh st a) ! i = groups st ! i"
proof (cases "findGroup (name a) (groups st)")
  case None
  then show ?thesis by (simp add: reconcile_def)
next
  case (Some j)
  from findGroup_Some[OF Some] findGroup_Some[OF assms(2)] assms(1) have "j \<noteq> i" by auto
  with Some show ?thesis by (simp add: reconcile_def Let_def)
qed

lemma foldl_reconcile_other:
  assumes "\<forall>a \<in> set ss. name a \<noteq> nm" "findGroup nm (groups st) = Some i"
  shows "groups (foldl (reconcile p xs ys lh) st ss) ! i = groups st ! i"
  using assms
proof (induction ss arbitrary: st)
  case Nil
  then show ?case by simp
next
  case (Cons a ss)
  let ?st1 = "reconcile p xs ys lh st a"
  from Cons.prems have a: "name a \<noteq> nm" by simp
  from Cons.prems(2) have "findGroup nm (groups ?st1) = Some i"
    using findGroup_cong[OF reconcile_groupIds, of nm p xs ys lh st a] by simp
  from Cons.IH[OF _ this] Cons.prems(1) reconcile_other[OF a Cons.prems(2), of p xs ys lh]
  show ?case by simp
qed

lemma foldl_reconcile_visible:
  assumes "distinct (map name ss)" "s \<in> set ss" "findGroup (name s) (groups st) = Some i"
  shows "map datum (lines (groups (foldl (reconcile p xs ys lh) st ss) ! i)) =
         filter (inView (timeRangeRef st)) (data s)"
  using assms
proof (induction ss arbitrary: st)
  case Nil
  then show ?case by simp
next
  case (Cons a ss)
  let ?st1 = "reconcile p xs ys lh st a"
  have g1: "findGroup nm (groups ?st1) = findGroup nm (groups st)" for nm
    using findGroup_cong[OF reconcile_groupIds, of nm p xs ys lh st a] .
  show ?case
  proof (cases "s = a")
    case True
    from Cons.prems(1) True have "\<forall>b \<in> set ss. name b \<noteq> name s"
      by (metis distinct.simps(2) image_eqI list.simps(9) set_map)
    from foldl_reconcile_other[OF this, of ?st1 i p xs ys lh] Cons.prems(3) g1
    have "groups (foldl (reconcile p xs ys lh) ?st1 ss) ! i = groups ?st1 ! i" by simp
    with True Cons.prems(3) show ?thesis
      by (simp add: reconcile_lines joinLines_datum)
  next
    case False
    with Cons.prems have "distinct (map name ss)" "s \<in> set ss" by auto
    from Cons.IH[OF this, of ?st1] Cons.prems(3) g1 show ?thesis
      by (simp add: reconcile_timeRangeRef)
  qed
qed

lemma visible_set_after_pass:
  assumes c: "containerRef st"
      and d: "distinct (map name (seriesList p))"
      and s: "s \<in> set (seriesList p)"
      and i: "findGroup (name s) (groups (updatePlot p r st)) = Some i"
  shows "map datum (lines (groups (updatePlot p r st) ! i)) = filter (inView r) (data s)"
proof -
  from s have "seriesList p \<noteq> []" by auto
  from updatePlot_unfold[OF c this, of r] obtain st3 lh where
    u: "updatePlot p r st = foldl (reconcile p (xScaleOf p r) (yScaleOf p) lh) st3 (seriesList p)"
    and r: "timeRangeRef st3 = r"
    by blast
  from i u have "findGroup (name s) (groups st3) = Some i"
    using findGroup_cong[OF foldl_reconcile_groupIds,
            of "name s" p "xScaleOf p r" "yScaleOf p" lh st3 "seriesList p"]
    by simp
  from foldl_reconcile_visible[OF d s this, of p "xScaleOf p r" "yScaleOf p" lh] r u
  show ?thesis by simp
qed

lemma hashSelector_identifier: "cssIdentifier nm \<Longrightarrow> hashSelector nm = IdSelector"
  by (cases nm) auto

lemma firstOther_identifiers:
  "list_all cssIdentifier nms \<Longrightarrow> firstOther nms = IdSelector"
  by (induction nms) (simp_all add: hashSelector_identifier)

lemma updatePlotOutcome_identifiers:
  "list_all cssIdentifier (map name (seriesList p)) \<Longrightarrow>
   updatePlotOutcome p r st = Some (Inr (updatePlot p r st))"
  by (simp add: updatePlotOutcome_def firstOther_identifiers)

lemma noSpikes_emptyGroup: "noSpikes st \<longleftrightarrow> (\<forall>i < length (groups st). emptyGroup st i)"
  by (simp add: noSpikes_def emptyGroup_def list_all_length)

lemma updatePlot_unfold_noSpikes:
  assumes "containerRef st" "seriesList p \<noteq> []" "noSpikes st"
  shows "\<exists>st3 lh. updatePlot p r st =
           foldl (reconcile p (xScaleOf p r) (yScaleOf p) lh) st3 (seriesList p) \<and>
           timeRangeRef st3 = r \<and> noSpikes st3"
proof -
  let ?st3 = "setUpAxes p (xScaleOf p r) (yScaleOf p)
                (setUpMainG p (setUpTracker p (setUpMagnifier p
                   (st\<lparr>tooltipRef := tooltip p, timeRangeRef := r\<rparr>))))"
  from assms(2) obtain lh where lh: "spikeLineHeight p = Some lh"
    by (simp add: spikeLineHeight_def)
  with assms(1) have "updatePlot p r st =
      foldl (reconcile p (xScaleOf p r) (yScaleOf p) lh) ?st3 (seriesList p)"
    by (simp add: updatePlot_def Let_def setUp_fields)
  moreover have "timeRangeRef ?st3 = r"
    by (simp add: setUp_fields)
  moreover from assms(3) have "noSpikes ?st3"
    by (auto simp: noSpikes_def setUp_fields setUpMainG_def newGroup_def list_all_iff)
  ultimately show ?thesis by blast
qed

lemma updatePlot_noSpikes:
  assumes out: "\<forall>s \<in> set (seriesList p). filter (inView r) (data s) = []"
      and before: "noSpikes st"
  shows "noSpikes (updatePlot p r st)"
proof (cases "containerRef st \<and> seriesList p \<noteq> []")
  case False
  then consider "\<not> containerRef st" | "seriesList p = []" by blast
  then show ?thesis
  proof cases
    case 1
    with before show ?thesis by (simp add: updatePlot_def Let_def noSpikes_def)
  next
    case 2
    with before updatePlot_no_series[OF 2, of r st] show ?thesis by (simp add: noSpikes_def)
  qed
next
  case True
  with before updatePlot_unfold_noSpikes[of st p r] obtain st3 lh where
    u: "updatePlot p r st = foldl (reconcile p (xScaleOf p r) (yScaleOf p) lh) st3 (seriesList p)"
    and r: "timeRangeRef st3 = r" and n: "noSpikes st3"
    by blast
  have len: "length (groups (updatePlot p r st)) = length (groups st3)"
    using foldl_reconcile_groupIds[of p "xScaleOf p r" "yScaleOf p" lh st3 "seriesList p"] u
    by (metis length_map)
  have "emptyGroup (updatePlot p r st) i" if "i < length (groups (updatePlot p r st))" for i
  proof -
    from that len n have "emptyGroup st3 i" by (simp add: noSpikes_emptyGroup)
    from foldl_reconcile_emptyGroup[OF _ this, of "seriesList p" p "xScaleOf p r" "yScaleOf p" lh]
         out r u
    show ?thesis by simp
  qed
  then show ?thesis by (simp add: noSpikes_emptyGroup)
qed

section \<open>Claims\<close>

section \<open>The spikes in view\<close>

text \<open>
  Claim C1 asks that after a pass the spikes rendered for a series are exactly its
  datums in the window. Once the group of a series exists this holds (lemma
  \<open>visible_set_after_pass\<close>, for distinct series names). The pass that runs on
  mount does not reach it: it creates the main group only, the series groups are created
  by the next pass, and the join of the first pass finds no group to render into. With
  the series \<open>n0\<close> and the window from 0 to 1000, two datums are in view; the first
  pass renders no spike, the second pass renders both.
\<close>

theorem first_pass_renders_nothing:
  "filter (inView exampleRange) (data exampleSeries) =
     [\<lparr>time = 10, val = 1\<rparr>, \<lparr>time = 500, val = 1\<rparr>] \<and>
   groups firstPass = [] \<and>
   findGroup (name exampleSeries) (groups firstPass) = None \<and>
   map (map datum \<circ> lines) (groups secondPass) =
     [[\<lparr>time = 10, val = 1\<rparr>, \<lparr>time = 500, val = 1\<rparr>]]"
  by (simp add: firstPass_eq secondPass_eq example_defs inView_def)

section \<open>The plot area is open\<close>

text \<open>
  Claim C10. The test of the pointer against the plot area is strict: at a pointer
  position on a boundary of the plot (x at the left margin or at the width less the right
  margin, y at the top margin or at the height less the bottom margin)
  \<open>mouseInPlotArea\<close> is false, so the tracker line, where there is one, and the
  magnifier lens, where there is one, get opacity 0 there. Inside are exactly the points
  of the open rectangle between the margins.
\<close>

theorem mouseInPlotArea_strict:
  assumes boundary: "x = left (margin p) \<or> x = width p - right (margin p) \<or>
                     y = top_margin (margin p) \<or> y = height p - bottom (margin p)"
  shows "\<not> mouseInPlotArea p x y \<and>
         mouseInPlotArea p x' y' =
           (x' \<in> {left (margin p) <..< width p - right (margin p)} \<and>
            y' \<in> {top_margin (margin p) <..< height p - bottom (margin p)}) \<and>
         (containerRef st \<and> trackerRef st \<noteq> None \<longrightarrow>
            map_option trackOpacity (trackerRef (handleShowTracker p x y st)) = Some 0) \<and>
         (containerRef st \<and> magnifierRef st \<noteq> None \<and>
          (anySpike (groups st) \<longrightarrow> axesRef st \<noteq> None) \<longrightarrow>
            (\<exists>st'. handleShowMagnify p barMagnifier x y st = Inr st' \<and>
                   map_option magOpacity (magnifierRef st') = Some 0))"
proof -
  from boundary have out: "\<not> mouseInPlotArea p x y"
    by (auto simp: mouseInPlotArea_def)
  have tr: "map_option trackOpacity (trackerRef (handleShowTracker p x y st)) = Some 0"
    if "containerRef st" "trackerRef st \<noteq> None"
    using that out by (auto simp: handleShowTracker_def)
  have mg: "\<exists>st'. handleShowMagnify p barMagnifier x y st = Inr st' \<and>
                  map_option magOpacity (magnifierRef st') = Some 0"
    if "containerRef st" "magnifierRef st \<noteq> None"
       "anySpike (groups st) \<longrightarrow> axesRef st \<noteq> None"
    using that out by (auto simp: handleShowMagnify_def Let_def split: option.splits)
  have inside: "mouseInPlotArea p x' y' =
           (x' \<in> {left (margin p) <..< width p - right (margin p)} \<and>
            y' \<in> {top_margin (margin p) <..< height p - bottom (margin p)})"
    by (auto simp: mouseInPlotArea_def)
  from out inside tr mg show ?thesis by blast
qed

theorem mouseInPlotArea_strict_witness:
  "\<not> mouseInPlotArea exampleProps 50 100 \<and> mouseInPlotArea exampleProps 51 100 \<and>
   map_option trackOpacity (trackerRef (handleShowTracker exampleProps 50 100 secondPass)) = Some 0 \<and>
   (\<exists>st'. handleShowMagnify exampleProps
            (\<lambda>w k c x. \<lparr>xPrime = x, magnification = 1\<rparr>) 50 100 secondPass = Inr st' \<and>
          map_option magOpacity (magnifierRef st') = Some 0)"
  using mouseInPlotArea_strict
    [where x = 50 and p = exampleProps and y = 100 and st = secondPass
       and x' = 51 and y' = 100
       and barMagnifier = "\<lambda>w k c x. \<lparr>xPrime = x, magnification = 1\<rparr>"]
  by (simp add: secondPass_eq example_defs)

section \<open>A missing band position is zero\<close>

text \<open>
  Claim C9. A lookup of a series name in the band scale that yields no position (the
  name is not in the scale's domain) is replaced by 0 and raises nothing: the grid line
  of that name, the spikes of a series of that name, and the tooltip of that name are
  placed as if the band started at 0.
\<close>

theorem missing_band_is_zero:
  assumes missing: "bandPos yScale nm = Undefined"
  shows "gridY1 (gridLine p yScale lineHeight nm) = 0 + top_margin (margin p) + lineHeight / 2 \<and>
         gridY2 (gridLine p yScale lineHeight nm) = 0 + top_margin (margin p) + lineHeight / 2 \<and>
         (name series = nm \<and> findGroup nm (groups st) = Some i \<longrightarrow>
            (\<forall>l \<in> set (lines (groups (reconcile p xScale yScale lineHeight st series) ! i)).
               y1 l = 0 + spikeMargin (spikesStyle p) \<and>
               y2 l = 0 + lineHeight - spikeMargin (spikesStyle p))) \<and>
         tooltipY p yScale nm textHeight =
           (let y = 0 + top_margin (margin p) - paddingBottom (tooltip p) - textHeight
                      - paddingTop (tooltip p)
            in if y > 0 then Some y
               else map_option
                      (\<lambda>h. y + paddingBottom (tooltip p) + textHeight + paddingTop (tooltip p) + h)
                      (spikeLineHeight p))"
proof -
  have grid: "gridY1 (gridLine p yScale lineHeight nm) = 0 + top_margin (margin p) + lineHeight / 2"
             "gridY2 (gridLine p yScale lineHeight nm) = 0 + top_margin (margin p) + lineHeight / 2"
    using missing by (simp_all add: gridLine_def)
  have spikes: "y1 l = 0 + spikeMargin (spikesStyle p) \<and>
                y2 l = 0 + lineHeight - spikeMargin (spikesStyle p)"
    if nm: "name series = nm" and g: "findGroup nm (groups st) = Some i"
       and l: "l \<in> set (lines (groups (reconcile p xScale yScale lineHeight st series) ! i))"
    for l
  proof -
    have "\<forall>d \<in> set (filter (inView (timeRangeRef st)) (data series)).
            time d \<ge> start (timeRangeRef st)"
      by (simp add: inView_def)
    from joinLines_vertical[OF this] l g nm missing show ?thesis
      by (simp add: reconcile_lines)
  qed
  have tip: "tooltipY p yScale nm textHeight =
           (let y = 0 + top_margin (margin p) - paddingBottom (tooltip p) - textHeight
                      - paddingTop (tooltip p)
            in if y > 0 then Some y
               else map_option
                      (\<lambda>h. y + paddingBottom (tooltip p) + textHeight + paddingTop (tooltip p) + h)
                      (spikeLineHeight p))"
    using missing by (simp add: tooltipY_def)
  from grid spikes tip show ?thesis by blast
qed

theorem missing_band_is_zero_witness:
  "bandPos otherScale ''n0'' = Undefined \<and>
   gridY1 (gridLine exampleProps otherScale 340 ''n0'') = 200 \<and>
   gridY2 (gridLine exampleProps otherScale 340 ''n0'') = 200 \<and>
   map y1 (lines (groups (reconcile exampleProps (xScaleOf exampleProps exampleRange) otherScale 340
                            secondPass exampleSeries) ! 0)) = [2, 2] \<and>
   map y2 (lines (groups (reconcile exampleProps (xScaleOf exampleProps exampleRange) otherScale 340
                            secondPass exampleSeries) ! 0)) = [338, 338] \<and>
   tooltipY exampleProps otherScale ''n0'' 20 = Some 370"
  using missing_band_is_zero
    [where yScale = otherScale and nm = "''n0''" and p = exampleProps and lineHeight = 340
       and series = exampleSeries and st = secondPass and i = 0
       and xScale = "xScaleOf exampleProps exampleRange" and textHeight = 20]
  by (simp add: secondPass_eq example_defs otherScale_def pass_defs)

section \<open>The bands follow the series list\<close>

text \<open>
  Claim C2, as amended. The band scale is built anew in every pass from the series list
  of that pass, so the band of a name is where the list of that pass puts it, not where
  the list at mount time did. What holds: two passes whose series lists carry the same
  names in the same order (datums appended to the series or not), with the same height
  and margins, give every name the same vertical position; series appended after the
  existing ones leave the band index of every name already present unchanged; and with
  distinct names the order of the bands is the order of the list, never re-sorted.
\<close>

theorem band_follows_seriesList:
  "(map name (seriesList p') = map name (seriesList p) \<and> height p' = height p \<and>
    margin p' = margin p \<longrightarrow> bandPos (yScaleOf p') nm = bandPos (yScaleOf p) nm) \<and>
   (seriesList p' = seriesList p @ added \<and> nm \<in> set (map name (seriesList p)) \<longrightarrow>
      bandIndex (yScaleOf p') nm = bandIndex (yScaleOf p) nm) \<and>
   (distinct (map name (seriesList p)) \<longrightarrow>
      bandDomain (yScaleOf p) = map name (seriesList p))"
proof -
  have same: "bandPos (yScaleOf p') nm = bandPos (yScaleOf p) nm"
    if "map name (seriesList p') = map name (seriesList p)" "height p' = height p"
       "margin p' = margin p"
  proof -
    from that(1) have "length (seriesList p') = length (seriesList p)"
      by (metis length_map)
    with that have "yScaleOf p' = yScaleOf p"
      by (simp add: yScaleOf_def spikeLineHeight_def plotDimensions_def adjustedDimensions_def)
    then show ?thesis by simp
  qed
  have app: "bandIndex (yScaleOf p') nm = bandIndex (yScaleOf p) nm"
    if "seriesList p' = seriesList p @ added" "nm \<in> set (map name (seriesList p))"
    using that indexOf_firstOccurrences_append[of nm "map name (seriesList p)" "map name added"]
    by (simp add: bandIndex_def yScaleOf_def)
  have ord: "bandDomain (yScaleOf p) = map name (seriesList p)"
    if "distinct (map name (seriesList p))"
    using that by (simp add: yScaleOf_def firstOccurrences_distinct)
  from same app ord show ?thesis by blast
qed

theorem band_follows_seriesList_witness:
  "bandPos (yScaleOf propsMoreData) ''n0'' = bandPos (yScaleOf exampleProps) ''n0'' \<and>
   bandIndex (yScaleOf propsInOrder) ''n0'' = bandIndex (yScaleOf exampleProps) ''n0'' \<and>
   bandDomain (yScaleOf propsInOrder) = [''n0'', ''n1'']"
proof -
  have h1: "map name (seriesList propsMoreData) = map name (seriesList exampleProps) \<and>
            height propsMoreData = height exampleProps \<and>
            margin propsMoreData = margin exampleProps"
    by (simp add: order_defs example_defs)
  have h2: "seriesList propsInOrder = seriesList exampleProps @ [secondSeries] \<and>
            ''n0'' \<in> set (map name (seriesList exampleProps))"
    by (simp add: order_defs example_defs)
  have names: "map name (seriesList propsInOrder) = [''n0'', ''n1'']"
    by (simp add: order_defs example_defs)
  then have h3: "distinct (map name (seriesList propsInOrder))"
    by simp
  from h1 band_follows_seriesList
         [where p' = propsMoreData and p = exampleProps and nm = "''n0''"]
  have c1: "bandPos (yScaleOf propsMoreData) ''n0'' = bandPos (yScaleOf exampleProps) ''n0''"
    by blast
  from h2 band_follows_seriesList
         [where p' = propsInOrder and p = exampleProps and added = "[secondSeries]"
            and nm = "''n0''"]
  have c2: "bandIndex (yScaleOf propsInOrder) ''n0'' = bandIndex (yScaleOf exampleProps) ''n0''"
    by blast
  from h3 band_follows_seriesList [where p = propsInOrder]
  have "bandDomain (yScaleOf propsInOrder) = map name (seriesList propsInOrder)"
    by blast
  with names c1 c2 show ?thesis by simp
qed

text \<open>
  The claim as stated fails: with the series list reordered, the band of \<open>n0\<close> moves
  from index 0 to index 1, and the pass after the reordering moves the spikes of
  \<open>n0\<close> down with it.
\<close>

theorem band_order_counterexample:
  "map name (seriesList propsInOrder) = [''n0'', ''n1''] \<and>
   map name (seriesList propsReordered) = [''n1'', ''n0''] \<and>
   bandIndex (yScaleOf propsInOrder) ''n0'' = Some 0 \<and>
   bandIndex (yScaleOf propsReordered) ''n0'' = Some 1 \<and>
   bandPos (yScaleOf propsInOrder) ''n0'' = Num 0 \<and>
   bandPos (yScaleOf propsReordered) ''n0'' = Num 155 \<and>
   map groupId (groups inOrderPass) = [''n0'', ''n1''] \<and>
   map y1 (lines (groups inOrderPass ! 0)) = [2, 2] \<and>
   map groupId (groups reorderedPass) = [''n0'', ''n1''] \<and>
   map y1 (lines (groups reorderedPass ! 0)) = [157, 157]"
  by (simp add: reorderedPass_def inOrderPass_def order_defs example_defs pass_defs)

section \<open>The time range under pan and zoom\<close>

text \<open>
  Claim C3. From a time range with \<open>start \<le> end\<close>, every sequence of \<open>translate\<close>
  and of \<open>scale\<close> with factors that the zoom delivers (from 0 to 10, both included)
  yields a range with \<open>start \<le> end\<close>, under either reading of \<open>scale\<close>; and so
  does every run of pan and zoom gestures with such factors on a chart, whose range is
  changed by \<open>onZoom\<close> and \<open>onPan\<close> only through \<open>scale\<close> and \<open>translate\<close>.
  The factor a range remembers is 1 or a factor delivered before, so it is not negative.
\<close>

theorem range_stays_ordered:
  "(start r \<le> endT r \<and> 0 \<le> previous \<and> list_all deliverableOp ops \<longrightarrow>
      start (fst (applyOps reading ops (r, previous)))
        \<le> endT (fst (applyOps reading ops (r, previous)))) \<and>
   (ready st \<and> list_all deliverableGesture gs \<longrightarrow>
      (\<exists>st'. gestures p reading gs st = Inr st' \<and>
             start (timeRangeRef st') \<le> endT (timeRangeRef st')))"
proof -
  have chart: "\<exists>st'. gestures p reading gs st = Inr st' \<and>
                 start (timeRangeRef st') \<le> endT (timeRangeRef st')"
    if "ready st" "list_all deliverableGesture gs"
    using gestures_ready[OF that, of p reading] by (auto simp: ready_def)
  have ops: "start (fst (applyOps reading ops (r, previous)))
               \<le> endT (fst (applyOps reading ops (r, previous)))"
    if "start r \<le> endT r" "0 \<le> previous" "list_all deliverableOp ops"
    using applyOps_ordered[of "(r, previous)" ops reading] that by simp
  from chart ops show ?thesis by blast
qed

theorem range_stays_ordered_witness:
  "start exampleRange \<le> endT exampleRange \<and>
   list_all deliverableOp [Scale 2 500, Translate 300, Scale 0 600, Scale 10 0] \<and>
   start (fst (applyOps Cumulative [Scale 2 500, Translate 300, Scale 0 600, Scale 10 0]
                 (exampleRange, 1)))
     \<le> endT (fst (applyOps Cumulative [Scale 2 500, Translate 300, Scale 0 600, Scale 10 0]
                    (exampleRange, 1))) \<and>
   ready secondPass \<and> list_all deliverableGesture [Zoom 2 415, Pan (- 249), Zoom 0 100] \<and>
   (\<exists>st'. gestures exampleProps PerCall [Zoom 2 415, Pan (- 249), Zoom 0 100] secondPass = Inr st' \<and>
          start (timeRangeRef st') \<le> endT (timeRangeRef st'))"
proof -
  have h1: "start exampleRange \<le> endT exampleRange \<and> (0::real) \<le> 1 \<and>
            list_all deliverableOp [Scale 2 500, Translate 300, Scale 0 600, Scale 10 0]"
    by (simp add: exampleRange_def deliverable_def scaleExtent_def)
  have h2: "ready secondPass \<and> list_all deliverableGesture [Zoom 2 415, Pan (- 249), Zoom 0 100]"
    by (simp add: secondPass_eq ready_def deliverable_def scaleExtent_def)
  from h1 h2 range_stays_ordered
    [where r = exampleRange and previous = 1
       and ops = "[Scale 2 500, Translate 300, Scale 0 600, Scale 10 0]"
       and reading = Cumulative]
    range_stays_ordered
    [where st = secondPass and gs = "[Zoom 2 415, Pan (- 249), Zoom 0 100]"
       and p = exampleProps and reading = PerCall]
  show ?thesis by blast
qed

section \<open>Panning keeps the width of the window\<close>

text \<open>
  Claim C4. For every drag by \<open>deltaX\<close> pixels, on a chart that has its axes,
  \<open>onPan\<close> takes as time delta the inverse of the current time scale at the pixel of
  the window's start plus \<open>deltaX\<close>, less the start, and replaces the range by its
  translation by the negated delta; the width of the window, end less start, is
  unchanged.
\<close>

theorem onPan_translates:
  assumes "axesRef st = Some axes"
  shows "\<exists>st'. onPan p deltaX st = Inr st' \<and>
           timeRangeRef st' =
             translate (- (invert (xAxis axes)
                             (applyScale (xAxis axes) (start (timeRangeRef st)) + deltaX)
                           - start (timeRangeRef st)))
               (timeRangeRef st) \<and>
           endT (timeRangeRef st') - start (timeRangeRef st') =
             endT (timeRangeRef st) - start (timeRangeRef st)"
  using assms by (simp add: onPan_def Let_def updatePlot_timeRangeRef translate_def)

theorem onPan_translates_witness:
  "axesRef secondPass =
     Some \<lparr>xAxis = \<lparr>d0 = 0, d1 = 1000, r0 = 0, r1 = 830\<rparr>,
           yAxis = \<lparr>bandDomain = [''n0''], rangeLo = 0, rangeHi = Some 310\<rparr>\<rparr> \<and>
   (\<exists>st'. onPan exampleProps (- 249) secondPass = Inr st' \<and>
          timeRangeRef st' = \<lparr>start = 300, endT = 1300\<rparr> \<and>
          endT (timeRangeRef st') - start (timeRangeRef st') = 1000)"
  using onPan_translates
    [where st = secondPass and p = exampleProps and deltaX = "- 249"
       and axes = "\<lparr>xAxis = \<lparr>d0 = 0, d1 = 1000, r0 = 0, r1 = 830\<rparr>,
                    yAxis = \<lparr>bandDomain = [''n0''], rangeLo = 0, rangeHi = Some 310\<rparr>\<rparr>"]
  by (simp add: secondPass_eq translate_def applyScale_def invert_def normalize_def
      interpolateNumber_def)

section \<open>Switching the tooltip on and off\<close>

text \<open>
  Claim C5. A pass of \<open>updatePlot\<close> with a changed tooltip configuration, with no
  remount, stores that configuration in the reference the handlers read, and leaves every
  spike with its listeners whatever the flag says. With visibility off, the pointer
  entering a spike changes nothing: no tooltip primitive appears. With visibility on, the
  pointer entering a spike adds exactly one rectangle and two texts, and the pointer
  leaving the spike removes every tooltip primitive.
\<close>

theorem tooltip_toggle:
  "tooltipRef (updatePlot p' r st) = tooltip p' \<and>
   (allHandlers st \<longrightarrow> allHandlers (updatePlot p' r st)) \<and>
   (\<not> visible (tooltipRef st) \<longrightarrow> mouseover p m spike st = Inr st) \<and>
   (visible (tooltipRef st) \<and> axesRef st \<noteq> None \<and>
    spikeAt spike (groups st) = Some (g, l) \<and> handlers l \<longrightarrow>
      (\<exists>st' rect header body.
         mouseover p m spike st = Inr st' \<and>
         tooltips st' = tooltips st @ [rect, header, body] \<and>
         isRect rect \<and> \<not> isRect header \<and> \<not> isRect body \<and>
         tooltips (mouseleave p spike st') = []))"
proof -
  have off: "mouseover p m spike st = Inr st" if "\<not> visible (tooltipRef st)"
    using that by (simp add: mouseover_def handleShowTooltip_hidden split: option.splits)
  have on: "\<exists>st' rect header body.
         mouseover p m spike st = Inr st' \<and>
         tooltips st' = tooltips st @ [rect, header, body] \<and>
         isRect rect \<and> \<not> isRect header \<and> \<not> isRect body \<and>
         tooltips (mouseleave p spike st') = []"
    if v: "visible (tooltipRef st)" and a: "axesRef st \<noteq> None"
       and s: "spikeAt spike (groups st) = Some (g, l)" and h: "handlers l"
  proof -
    from handleShowTooltip_visible[OF v a, of p m "datum l" "groupId g" spike]
    obtain st' rect header body where
      st': "handleShowTooltip p m (datum l) (groupId g) spike st = Inr st'"
           "tooltips st' = tooltips st @ [rect, header, body]"
           "isRect rect" "\<not> isRect header" "\<not> isRect body"
           "tooltipRef st' = tooltipRef st"
           "groups st' = updateSpike spike
              (\<lambda>l. l\<lparr>stroke := highlightColor (spikesStyle p),
                      strokeWidth := highlightWidth (spikesStyle p)\<rparr>) (groups st)"
      by blast
    from s h st'(1) have over: "mouseover p m spike st = Inr st'"
      by (simp add: mouseover_def)
    from spikeAt_updateSpike[OF s] st'(7) h v st'(6)
    have "tooltips (mouseleave p spike st') = []"
      by (simp add: mouseleave_def handleHideTooltip_visible)
    with over st' show ?thesis by blast
  qed
  from updatePlot_tooltipRef[of p' r st] updatePlot_allHandlers[of st p' r] off on
  show ?thesis by blast
qed

theorem tooltip_toggle_witness:
  "tooltipRef hiddenPass = tooltip propsHidden \<and>
   allHandlers secondPass \<and> allHandlers hiddenPass \<and>
   \<not> visible (tooltipRef hiddenPass) \<and>
   mouseover exampleProps exampleBoxes (0, 0) hiddenPass = Inr hiddenPass \<and>
   tooltips hiddenPass = [] \<and>
   visible (tooltipRef shownPass) \<and> axesRef shownPass \<noteq> None \<and>
   (\<exists>g l. spikeAt (0, 0) (groups shownPass) = Some (g, l) \<and> handlers l) \<and>
   (\<exists>st' rect header body.
      mouseover exampleProps exampleBoxes (0, 0) shownPass = Inr st' \<and>
      tooltips st' = tooltips shownPass @ [rect, header, body] \<and>
      isRect rect \<and> \<not> isRect header \<and> \<not> isRect body \<and>
      tooltips (mouseleave exampleProps (0, 0) st') = [])"
proof -
  have h0: "allHandlers secondPass"
    by (simp add: secondPass_eq allHandlers_def)
  have h1: "\<not> visible (tooltipRef hiddenPass)" "tooltips hiddenPass = []"
    by (simp_all add: hiddenPass_eq secondPass_eq propsHidden_def example_defs)
  have h2: "visible (tooltipRef shownPass)" "axesRef shownPass \<noteq> None"
    by (simp_all add: shownPass_eq secondPass_eq)
  obtain g l where gl: "spikeAt (0, 0) (groups shownPass) = Some (g, l)" "handlers l"
    by (simp add: shownPass_eq secondPass_eq spikeAt_def)
  from tooltip_toggle
         [where p' = propsHidden and r = exampleRange and st = secondPass]
       h0
  have c1: "tooltipRef hiddenPass = tooltip propsHidden" "allHandlers hiddenPass"
    unfolding hiddenPass_def by blast+
  from tooltip_toggle
         [where st = hiddenPass and p = exampleProps and m = exampleBoxes
            and spike = "(0, 0)"]
       h1
  have c2: "mouseover exampleProps exampleBoxes (0, 0) hiddenPass = Inr hiddenPass"
    by blast
  from tooltip_toggle
         [where st = shownPass and p = exampleProps and m = exampleBoxes
            and spike = "(0, 0)" and g = g and l = l]
       h2 gl
  have c3: "\<exists>st' rect header body.
      mouseover exampleProps exampleBoxes (0, 0) shownPass = Inr st' \<and>
      tooltips st' = tooltips shownPass @ [rect, header, body] \<and>
      isRect rect \<and> \<not> isRect header \<and> \<not> isRect body \<and>
      tooltips (mouseleave exampleProps (0, 0) st') = []"
    by blast
  from h0 h1 h2 gl c1 c2 c3 show ?thesis by blast
qed

section \<open>Nothing to show\<close>

text \<open>
  Claim C8, as amended. A pass of \<open>updatePlot\<close> with an empty series list raises no
  error and leaves the series groups as they were: it renders no spike and removes
  none. A pass whose series all have identifiers as names raises no error either. On an
  attached chart the scene after the pass has its main group and its axes, with the
  scales of this pass. When no series has a datum in the window, which an empty list
  satisfies too, a scene that showed no spike before the pass shows none after it, and
  on an attached chart the group that the selector of a listed series finds holds no
  spike line after the pass.
\<close>

theorem nothing_to_show:
  "(seriesList p = [] \<longrightarrow>
      updatePlotOutcome p r st = Some (Inr (updatePlot p r st)) \<and>
      groups (updatePlot p r st) = groups st) \<and>
   (list_all cssIdentifier (map name (seriesList p)) \<longrightarrow>
      updatePlotOutcome p r st = Some (Inr (updatePlot p r st))) \<and>
   (containerRef st \<longrightarrow>
      containerRef (updatePlot p r st) \<and> mainGRef (updatePlot p r st) \<and>
      axesRef (updatePlot p r st) = Some \<lparr>xAxis = xScaleOf p r, yAxis = yScaleOf p\<rparr>) \<and>
   ((\<forall>s \<in> set (seriesList p). filter (inView r) (data s) = []) \<longrightarrow>
      (noSpikes st \<longrightarrow> noSpikes (updatePlot p r st)) \<and>
      (containerRef st \<longrightarrow>
         (\<forall>s \<in> set (seriesList p). \<forall>i.
            findGroup (name s) (groups (updatePlot p r st)) = Some i \<longrightarrow>
            lines (groups (updatePlot p r st) ! i) = [])))"
proof -
  have none: "updatePlotOutcome p r st = Some (Inr (updatePlot p r st))" if "seriesList p = []"
    using that by (simp add: updatePlotOutcome_def)
  from none updatePlotOutcome_identifiers[of p r st]
       updatePlot_containerRef[of p r st] updatePlot_mainGRef[of st p r]
       updatePlot_axesRef[of st p r] updatePlot_no_series[of p r st]
       updatePlot_nothing_in_view[of st p r] updatePlot_noSpikes[of p r st]
  show ?thesis by blast
qed


theorem nothing_to_show_witness:
  "seriesList propsNoSeries = [] \<and> noSpikes (mountedChart propsNoSeries exampleRange) \<and>
   containerRef (mountedChart propsNoSeries exampleRange) \<and>
   updatePlotOutcome propsNoSeries exampleRange (mountedChart propsNoSeries exampleRange) =
     Some (Inr (updatePlot propsNoSeries exampleRange (mountedChart propsNoSeries exampleRange))) \<and>
   mainGRef (updatePlot propsNoSeries exampleRange (mountedChart propsNoSeries exampleRange)) \<and>
   axesRef (updatePlot propsNoSeries exampleRange (mountedChart propsNoSeries exampleRange)) =
     Some \<lparr>xAxis = \<lparr>d0 = 0, d1 = 1000, r0 = 0, r1 = 830\<rparr>,
           yAxis = \<lparr>bandDomain = [], rangeLo = 0, rangeHi = None\<rparr>\<rparr> \<and>
   groups (updatePlot propsNoSeries exampleRange (mountedChart propsNoSeries exampleRange)) = [] \<and>
   noSpikes (updatePlot propsNoSeries exampleRange (mountedChart propsNoSeries exampleRange)) \<and>
   list_all cssIdentifier (map name (seriesList exampleProps)) \<and> containerRef secondPass \<and>
   map (filter (inView laterRange) \<circ> data) (seriesList exampleProps) = [[]] \<and>
   updatePlotOutcome exampleProps laterRange secondPass =
     Some (Inr (updatePlot exampleProps laterRange secondPass)) \<and>
   mainGRef (updatePlot exampleProps laterRange secondPass) \<and>
   axesRef (updatePlot exampleProps laterRange secondPass) =
     Some \<lparr>xAxis = \<lparr>d0 = 2000, d1 = 3000, r0 = 0, r1 = 830\<rparr>,
           yAxis = \<lparr>bandDomain = [''n0''], rangeLo = 0, rangeHi = Some 310\<rparr>\<rparr> \<and>
   findGroup ''n0'' (groups (updatePlot exampleProps laterRange secondPass)) = Some 0 \<and>
   lines (groups (updatePlot exampleProps laterRange secondPass) ! 0) = []"
proof -
  let ?m = "mountedChart propsNoSeries exampleRange"
  have h1: "containerRef ?m" "seriesList propsNoSeries = []" "groups ?m = []" "noSpikes ?m"
    by (simp_all add: mountedChart_def propsNoSeries_def noSpikes_def)
  then have out1: "\<forall>s \<in> set (seriesList propsNoSeries). filter (inView exampleRange) (data s) = []"
    by simp
  have x1: "xScaleOf propsNoSeries exampleRange = \<lparr>d0 = 0, d1 = 1000, r0 = 0, r1 = 830\<rparr>"
           "yScaleOf propsNoSeries = \<lparr>bandDomain = [], rangeLo = 0, rangeHi = None\<rparr>"
    by (simp_all add: propsNoSeries_def example_defs xScaleOf_def yScaleOf_def
        plotDimensions_def adjustedDimensions_def spikeLineHeight_def)
  have h2: "containerRef secondPass"
    by (simp add: secondPass_eq)
  have ids: "list_all cssIdentifier (map name (seriesList exampleProps))"
    by (simp add: example_defs identStart_def identChar_def)
  have h3: "map (filter (inView laterRange) \<circ> data) (seriesList exampleProps) = [[]]"
    by (simp add: example_defs laterRange_def inView_def)
  then have h3': "\<forall>s \<in> set (seriesList exampleProps). filter (inView laterRange) (data s) = []"
    by (simp add: example_defs)
  have x2: "xScaleOf exampleProps laterRange = \<lparr>d0 = 2000, d1 = 3000, r0 = 0, r1 = 830\<rparr>"
           "yScaleOf exampleProps = \<lparr>bandDomain = [''n0''], rangeLo = 0, rangeHi = Some 310\<rparr>"
    by (simp_all add: laterRange_def example_defs xScaleOf_def yScaleOf_def
        plotDimensions_def adjustedDimensions_def spikeLineHeight_def)
  have gids: "map groupId (groups (updatePlot exampleProps laterRange secondPass)) = [''n0'']"
    unfolding secondPass_eq by (simp add: pass_defs example_defs laterRange_def)
  have f: "findGroup ''n0'' (groups (updatePlot exampleProps laterRange secondPass)) = Some 0"
    using gids by (cases "groups (updatePlot exampleProps laterRange secondPass)") auto
  have s: "exampleSeries \<in> set (seriesList exampleProps)" "name exampleSeries = ''n0''"
    by (simp_all add: example_defs)
  from nothing_to_show [where st = ?m and p = propsNoSeries and r = exampleRange] h1 out1
  have b1: "updatePlotOutcome propsNoSeries exampleRange ?m =
              Some (Inr (updatePlot propsNoSeries exampleRange ?m))"
    "groups (updatePlot propsNoSeries exampleRange ?m) = groups ?m"
    "mainGRef (updatePlot propsNoSeries exampleRange ?m)"
    "axesRef (updatePlot propsNoSeries exampleRange ?m) =
       Some \<lparr>xAxis = xScaleOf propsNoSeries exampleRange, yAxis = yScaleOf propsNoSeries\<rparr>"
    "noSpikes (updatePlot propsNoSeries exampleRange ?m)"
    by blast+
  from nothing_to_show [where st = secondPass and p = exampleProps and r = laterRange]
       h2 ids h3'
  have b2: "updatePlotOutcome exampleProps laterRange secondPass =
              Some (Inr (updatePlot exampleProps laterRange secondPass))"
    "mainGRef (updatePlot exampleProps laterRange secondPass)"
    "axesRef (updatePlot exampleProps laterRange secondPass) =
       Some \<lparr>xAxis = xScaleOf exampleProps laterRange, yAxis = yScaleOf exampleProps\<rparr>"
    "\<forall>s \<in> set (seriesList exampleProps). \<forall>i.
       findGroup (name s) (groups (updatePlot exampleProps laterRange secondPass)) = Some i \<longrightarrow>
       lines (groups (updatePlot exampleProps laterRange secondPass) ! i) = []"
    by blast+
  from b2(4) s f
  have c2: "lines (groups (updatePlot exampleProps laterRange secondPass) ! 0) = []"
    by metis
  from h1 h2 h3 ids f b1 b2(1,2,3) c2 x1 x2 show ?thesis by simp
qed

text \<open>
  Claim C8 as first stated fails in two ways. After a pass that drew the spikes of a
  series, a pass with an empty series list leaves them in the scene, under the new axes:
  the scene is not empty. And a pass over a series that has no datum in the window but
  whose name starts with a digit raises \<open>SyntaxError\<close>.
\<close>

theorem stale_spikes_counterexample:
  "containerRef secondPass \<and> seriesList propsNoSeries = [] \<and>
   map (map datum \<circ> lines) (groups (updatePlot propsNoSeries laterRange secondPass)) =
     [[\<lparr>time = 10, val = 1\<rparr>, \<lparr>time = 500, val = 1\<rparr>]] \<and>
   \<not> noSpikes (updatePlot propsNoSeries laterRange secondPass) \<and>
   map (filter (inView laterRange) \<circ> data) (seriesList propsDigitName) = [[]] \<and>
   updatePlotOutcome propsDigitName laterRange secondPass = Some (Inl SyntaxError)"
proof -
  have h: "containerRef secondPass"
    by (simp add: secondPass_eq)
  have a: "seriesList propsNoSeries = []"
    by (simp add: propsNoSeries_def)
  from updatePlot_no_series[OF a, of laterRange secondPass]
  have b: "map (map datum \<circ> lines) (groups (updatePlot propsNoSeries laterRange secondPass)) =
     [[\<lparr>time = 10, val = 1\<rparr>, \<lparr>time = 500, val = 1\<rparr>]]"
    by (simp add: secondPass_eq)
  then have n: "\<not> noSpikes (updatePlot propsNoSeries laterRange secondPass)"
    by (auto simp: noSpikes_def)
  have c: "map (filter (inView laterRange) \<circ> data) (seriesList propsDigitName) = [[]]"
    by (simp add: propsDigitName_def digitSeries_def laterRange_def inView_def)
  have d: "updatePlotOutcome propsDigitName laterRange secondPass = Some (Inl SyntaxError)"
    by (simp add: updatePlotOutcome_def propsDigitName_def digitSeries_def secondPass_eq
        identStart_def digit_def)
  from h a b n c d show ?thesis by simp
qed

end
